theory Spec2Isabelle
  imports Main
begin

section \<open>Strings and the command grammar\<close>

text \<open>
  JavaScript strings are modelled by their UTF-8 bytes (\<^typ>\<open>string\<close> is a list of
  8-bit characters).  Every literal the source searches for is ASCII, and in UTF-8 no
  byte of a multi-byte character is an ASCII byte, so \<open>String.prototype.includes\<close>
  and the regular expressions below see the same matches on the bytes as on the UTF-16
  code units.
\<close>

fun starts_with :: "'a list \<Rightarrow> 'a list \<Rightarrow> bool" where
  "starts_with s [] = True"
| "starts_with [] (p # ps) = False"
| "starts_with (c # cs) (p # ps) = (c = p \<and> starts_with cs ps)"

text \<open>\<open>s.includes(needle)\<close>: case-sensitive substring test.\<close>

fun includes_str :: "string \<Rightarrow> string \<Rightarrow> bool" where
  "includes_str [] needle = (needle = [])"
| "includes_str (c # cs) needle = (starts_with (c # cs) needle \<or> includes_str cs needle)"

text \<open>
  The \<open>/i\<close> flag (without \<open>/u\<close>) compares canonicalised code units; a code unit
  above 127 is never canonicalised to an ASCII one, so an ASCII pattern letter matches
  exactly its two ASCII cases.  \<open>ascii_lower c\<close> is the code of \<open>c\<close> with the
  letters A to Z mapped to a to z.
\<close>

definition ascii_lower :: "char \<Rightarrow> nat" where
  "ascii_lower c =
     (if (65::nat) \<le> of_char c \<and> of_char c \<le> (90::nat) then of_char c + 32 else of_char c)"

text \<open>
  \<open>ci_literal lit s\<close>: match the lower-case ASCII literal \<open>lit\<close> at the start of
  \<open>s\<close> ignoring case; the rest of \<open>s\<close> on success.
\<close>

fun ci_literal :: "string \<Rightarrow> string \<Rightarrow> string option" where
  "ci_literal [] s = Some s"
| "ci_literal (p # ps) [] = None"
| "ci_literal (p # ps) (c # cs) = (if ascii_lower c = of_char p then ci_literal ps cs else None)"

text \<open>
  \<open>\s\<close> matches TAB, LF, VT, FF, CR, SP, U+00A0, U+1680, U+2000..U+200A, U+2028,
  U+2029, U+202F, U+205F, U+3000 and U+FEFF.  \<open>ws_bytes s\<close> is the number of bytes of
  the white-space character at the start of \<open>s\<close>, and 0 when there is none.
\<close>

definition ascii_space :: "char \<Rightarrow> bool" where
  "ascii_space c = (c = CHR 0x09 \<or> c = CHR 0x0A \<or> c = CHR 0x0B \<or> c = CHR 0x0C
     \<or> c = CHR 0x0D \<or> c = CHR 0x20)"

fun ws_bytes :: "string \<Rightarrow> nat" where
  "ws_bytes [] = 0"
| "ws_bytes [a] = (if ascii_space a then 1 else 0)"
| "ws_bytes [a, b] =
     (if ascii_space a then 1 else if a = CHR 0xC2 \<and> b = CHR 0xA0 then 2 else 0)"
| "ws_bytes (a # b # c # rest) =
     (if ascii_space a then 1
      else if a = CHR 0xC2 \<and> b = CHR 0xA0 then 2
      else if a = CHR 0xE1 \<and> b = CHR 0x9A \<and> c = CHR 0x80 then 3
      else if a = CHR 0xE2 \<and> b = CHR 0x80 \<and> (0x80::nat) \<le> of_char c \<and> of_char c \<le> (0x8A::nat)
        then 3
      else if a = CHR 0xE2 \<and> b = CHR 0x80 \<and> (c = CHR 0xA8 \<or> c = CHR 0xA9 \<or> c = CHR 0xAF)
        then 3
      else if a = CHR 0xE2 \<and> b = CHR 0x81 \<and> c = CHR 0x9F then 3
      else if a = CHR 0xE3 \<and> b = CHR 0x80 \<and> c = CHR 0x80 then 3
      else if a = CHR 0xEF \<and> b = CHR 0xBB \<and> c = CHR 0xBF then 3
      else 0)"

text \<open>
  \<open>\s+\<close>, followed in every pattern of the source by a character that is not white
  space: the greedy match is the only one that can succeed, so no backtracking is lost.
  \<open>skip_ws\<close> drops all leading white space under a fuel bound (one unit per byte
  suffices); \<open>spaces1\<close> demands at least one white-space character.
\<close>

fun skip_ws :: "nat \<Rightarrow> string \<Rightarrow> string" where
  "skip_ws 0 s = s"
| "skip_ws (Suc n) s = (if ws_bytes s = 0 then s else skip_ws n (drop (ws_bytes s) s))"

definition spaces1 :: "string \<Rightarrow> string option" where
  "spaces1 s = (if ws_bytes s = 0 then None else Some (skip_ws (length s) s))"

text \<open>The capture group \<open>([1-5])\<close>, read by \<open>parseInt(match[1], 10)\<close>.\<close>

definition digit_1_5 :: "string \<Rightarrow> int option" where
  "digit_1_5 s =
     (case s of [] \<Rightarrow> None
      | c # _ \<Rightarrow> if (49::nat) \<le> of_char c \<and> of_char c \<le> (53::nat)
                 then Some (int (of_char c) - 48) else None)"

text \<open>
  \<open>body.match(re)\<close> without the \<open>g\<close> flag returns the leftmost match:
  \<open>search m s\<close> tries the anchored matcher \<open>m\<close> at every position of \<open>s\<close> from
  the left.
\<close>

fun search :: "(string \<Rightarrow> 'a option) \<Rightarrow> string \<Rightarrow> 'a option" where
  "search m [] = m []"
| "search m (c # cs) = (case m (c # cs) of Some r \<Rightarrow> Some r | None \<Rightarrow> search m cs)"

text \<open>The pattern \<open>\/reposignal\s+difficulty\s+([1-5])\<close>, anchored.\<close>

definition difficulty_at :: "string \<Rightarrow> int option" where
  "difficulty_at s =
     (case ci_literal ''/reposignal'' s of None \<Rightarrow> None
      | Some r1 \<Rightarrow> (case spaces1 r1 of None \<Rightarrow> None
      | Some r2 \<Rightarrow> (case ci_literal ''difficulty'' r2 of None \<Rightarrow> None
      | Some r3 \<Rightarrow> (case spaces1 r3 of None \<Rightarrow> None
      | Some r4 \<Rightarrow> digit_1_5 r4))))"

text \<open>\<open>parseDifficultyCommand\<close> (commands/maintainer.ts): \<open>null\<close> is \<open>None\<close>.\<close>

definition parseDifficultyCommand :: "string \<Rightarrow> int option" where
  "parseDifficultyCommand body = search difficulty_at body"

text \<open>
  \<open>parseTypeCommand\<close>: the pattern
  \<open>\/reposignal\s+type\s+(docs|bug|feature|refactor|test|infra)\<close> with \<open>/i\<close>; the
  alternatives are tried in the order written and \<open>match[1].toLowerCase()\<close> is the
  lower-case name of the one that matched.
\<close>

datatype IssueType = Docs | Bug | Feature | Refactor | Test | Infra

definition issueType_name :: "IssueType \<Rightarrow> string" where
  "issueType_name t =
     (case t of Docs \<Rightarrow> ''docs'' | Bug \<Rightarrow> ''bug'' | Feature \<Rightarrow> ''feature''
      | Refactor \<Rightarrow> ''refactor'' | Test \<Rightarrow> ''test'' | Infra \<Rightarrow> ''infra'')"

fun first_alternative :: "IssueType list \<Rightarrow> string \<Rightarrow> IssueType option" where
  "first_alternative [] s = None"
| "first_alternative (t # ts) s =
     (case ci_literal (issueType_name t) s of Some _ \<Rightarrow> Some t
      | None \<Rightarrow> first_alternative ts s)"

definition type_at :: "string \<Rightarrow> IssueType option" where
  "type_at s =
     (case ci_literal ''/reposignal'' s of None \<Rightarrow> None
      | Some r1 \<Rightarrow> (case spaces1 r1 of None \<Rightarrow> None
      | Some r2 \<Rightarrow> (case ci_literal ''type'' r2 of None \<Rightarrow> None
      | Some r3 \<Rightarrow> (case spaces1 r3 of None \<Rightarrow> None
      | Some r4 \<Rightarrow> first_alternative [Docs, Bug, Feature, Refactor, Test, Infra] r4))))"

definition parseTypeCommand :: "string \<Rightarrow> IssueType option" where
  "parseTypeCommand body = search type_at body"

text \<open>\<open>isHideCommand\<close>: \<open>/\/reposignal\s+hide/i.test(body)\<close>.\<close>

definition hide_at :: "string \<Rightarrow> unit option" where
  "hide_at s =
     (case ci_literal ''/reposignal'' s of None \<Rightarrow> None
      | Some r1 \<Rightarrow> (case spaces1 r1 of None \<Rightarrow> None
      | Some r2 \<Rightarrow> (case ci_literal ''hide'' r2 of None \<Rightarrow> None
      | Some _ \<Rightarrow> Some ())))"

definition isHideCommand :: "string \<Rightarrow> bool" where
  "isHideCommand body = (search hide_at body \<noteq> None)"

text \<open>
  \<open>parseDifficultyRating\<close> and \<open>parseResponsivenessRating\<close> (commands/contributor.ts):
  \<open>\/reposignal\s+rate\s+difficulty\s+([1-5])\<close> and
  \<open>\/reposignal\s+rate\s+responsiveness\s+([1-5])\<close>, both with \<open>/i\<close>.
\<close>

definition rating_at :: "string \<Rightarrow> string \<Rightarrow> int option" where
  "rating_at keyword s =
     (case ci_literal ''/reposignal'' s of None \<Rightarrow> None
      | Some r1 \<Rightarrow> (case spaces1 r1 of None \<Rightarrow> None
      | Some r2 \<Rightarrow> (case ci_literal ''rate'' r2 of None \<Rightarrow> None
      | Some r3 \<Rightarrow> (case spaces1 r3 of None \<Rightarrow> None
      | Some r4 \<Rightarrow> (case ci_literal keyword r4 of None \<Rightarrow> None
      | Some r5 \<Rightarrow> (case spaces1 r5 of None \<Rightarrow> None
      | Some r6 \<Rightarrow> digit_1_5 r6))))))"

definition parseDifficultyRating :: "string \<Rightarrow> int option" where
  "parseDifficultyRating body = search (rating_at ''difficulty'') body"

definition parseResponsivenessRating :: "string \<Rightarrow> int option" where
  "parseResponsivenessRating body = search (rating_at ''responsiveness'') body"

text \<open>
  Template literals print numbers in decimal (the identifiers and counters printed by
  the bot are integers below \<open>2^53\<close>).
\<close>

definition digit_char :: "nat \<Rightarrow> char" where
  "digit_char d = ''0123456789'' ! d"

fun show_nat :: "nat \<Rightarrow> string" where
  "show_nat n =
     (if n < 10 then [digit_char n] else show_nat (n div 10) @ [digit_char (n mod 10)])"

definition show_int :: "int \<Rightarrow> string" where
  "show_int i = (if i < 0 then ''-'' @ show_nat (nat (- i)) else show_nat (nat i))"

text \<open>\<open>Array.prototype.join\<close>.\<close>

fun join :: "string \<Rightarrow> string list \<Rightarrow> string" where
  "join sep [] = []"
| "join sep [x] = x"
| "join sep (x # y # ys) = x @ sep @ join sep (y # ys)"

section \<open>Data model\<close>

text \<open>types/index.ts.\<close>

datatype ActorType = System | Bot | Maintainer | Contributor

datatype EntityType = Repo | Issue | Installation | Feedback | Comment

definition entityType_name :: "EntityType \<Rightarrow> string" where
  "entityType_name t =
     (case t of Repo \<Rightarrow> ''repo'' | Issue \<Rightarrow> ''issue'' | Installation \<Rightarrow> ''installation''
      | Feedback \<Rightarrow> ''feedback'' | Comment \<Rightarrow> ''comment'')"

text \<open>
  JSON values, as \<open>JSON.stringify\<close> writes them: an object is its list of members in
  insertion order; a member whose value is \<open>undefined\<close> is left out.
\<close>

datatype json = JNull | JBool bool | JNum int | JStr string | JObj "(string \<times> json) list"

text \<open>
  \<open>LogEntry\<close>: \<open>None\<close> in the two identity fields is \<open>null\<close>; \<open>None\<close> in
  \<open>context\<close> (here \<open>log_context\<close>) is \<open>undefined\<close>.
\<close>

record LogEntry =
  actorType :: ActorType
  actorGithubId :: "int option"
  actorUsername :: "string option"
  action :: string
  entityType :: EntityType
  entityId :: string
  log_context :: "(string \<times> json) list option"

text \<open>\<open>CleanupJob\<close>: \<open>None\<close> in \<open>issueNumber\<close> is the absent optional field.\<close>

record CleanupJob =
  owner :: string
  repo :: string
  commentId :: int
  issueNumber :: "int option"
  installationId :: int

text \<open>The options \<open>scheduleCleanup\<close> passes to \<open>Queue.add\<close>, and the job as queued.\<close>

record backoff_opts =
  backoff_type :: string
  backoff_delay :: nat

record job_opts =
  delay :: nat
  attempts :: nat
  backoff :: backoff_opts

record queued_job =
  job_name :: string
  job_data :: CleanupJob
  job_options :: job_opts

text \<open>Webhook payloads (the fields the handlers read).\<close>

record repository =
  repo_id :: int
  repo_name :: string
  repo_owner_login :: string

record user =
  user_id :: int
  user_login :: string

record comment =
  comment_id :: int
  comment_body :: string

record issue =
  issue_id :: int
  issue_number :: int

text \<open>
  \<open>context.payload\<close> of \<open>issue_comment.created\<close>.  \<open>installation\<close> is optional in
  the payload type; the handlers read it as \<open>context.payload.installation!.id\<close>,
  which throws a TypeError when it is absent.
\<close>

record issue_comment_created =
  ic_comment :: comment
  ic_issue :: issue
  ic_repository :: repository
  ic_sender :: user
  ic_installation :: "int option"

record issues_opened =
  io_issue :: issue
  io_repository :: repository
  io_installation :: "int option"

record pull_request =
  pr_number :: int
  pr_merged :: bool
  pr_body :: "string option"
  pr_head_repo :: bool

record pull_request_closed =
  pc_pull_request :: pull_request
  pc_repository :: repository
  pc_installation :: "int option"

text \<open>The pull request as \<open>octokit.pulls.get\<close> returns it; \<open>user\<close> may be null.\<close>

record pull =
  pull_id :: int
  pull_merged :: bool
  pull_user :: "user option"

section \<open>The outside world\<close>

text \<open>
  Errors are values.  \<open>RequestError\<close> is what octokit throws, \<open>NetworkError\<close> what
  \<open>fetch\<close> rejects with, \<open>Error msg\<close> is \<open>new Error(msg)\<close>, \<open>SyntaxError\<close> what
  \<open>response.json()\<close> rejects with, \<open>TypeError\<close> is reading \<open>.id\<close> of
  \<open>undefined\<close>, \<open>QueueError\<close> what \<open>Queue.add\<close> rejects with.
\<close>

datatype error =
    RequestError int
  | NetworkError
  | Error string
  | SyntaxError
  | TypeError
  | QueueError

text \<open>
  A request to the backend (the URL is \<open>BACKEND_URL\<close> followed by \<open>path\<close>; the
  headers are the same on every request) and its response.
\<close>

record request =
  http_method :: string
  path :: string
  req_body :: "json option"

record response =
  resp_ok :: bool
  statusText :: string
  resp_json :: "error + json"

text \<open>
  Every call that leaves the handlers, in the order issued.  \<open>WriteLog\<close> is the
  \<open>LogEntry\<close> handed to \<open>backendAPI.writeLog\<close>; the \<open>Fetch\<close> that follows it
  is what that method puts on the wire.
\<close>

datatype call =
    GetCollaboratorPermissionLevel string string string
  | PullsGet string string int
  | CreateComment string string int string
  | DeleteComment string string int
  | AppAuth int
  | WriteLog LogEntry
  | Fetch request
  | QueueAdd queued_job

record posted_comment =
  posted_id :: int
  posted_owner :: string
  posted_repo :: string
  posted_issue_number :: int
  posted_body :: string

text \<open>
  The state outside the bot: the trace of calls, the comments the bot has created on
  the platform and not yet deleted, and the jobs in the \<open>reposignal-cleanup\<close> queue.
\<close>

record world =
  trace :: "call list"
  comments :: "posted_comment list"
  jobs :: "queued_job list"

text \<open>
  How the external services answer.  Each answer may depend on everything that has
  happened so far (the world) and on the arguments of the call.
\<close>

record env =
  env_permission :: "world \<Rightarrow> string \<Rightarrow> string \<Rightarrow> string \<Rightarrow> error + string"
  env_pulls_get :: "world \<Rightarrow> string \<Rightarrow> string \<Rightarrow> int \<Rightarrow> error + pull"
  env_create_comment :: "world \<Rightarrow> string \<Rightarrow> string \<Rightarrow> int \<Rightarrow> string \<Rightarrow> error + int"
  env_delete_comment :: "world \<Rightarrow> string \<Rightarrow> string \<Rightarrow> int \<Rightarrow> error option"
  env_app_auth :: "world \<Rightarrow> int \<Rightarrow> error option"
  env_fetch :: "world \<Rightarrow> request \<Rightarrow> error + response"
  env_queue_add :: "world \<Rightarrow> queued_job \<Rightarrow> error option"

type_synonym 'a io = "world \<Rightarrow> (error + 'a) \<times> world"

definition emit :: "call \<Rightarrow> world \<Rightarrow> world" where
  "emit c w = w\<lparr>trace := trace w @ [c]\<rparr>"

definition add_comment :: "posted_comment \<Rightarrow> world \<Rightarrow> world" where
  "add_comment pc w = w\<lparr>comments := comments w @ [pc]\<rparr>"

definition remove_comment :: "int \<Rightarrow> world \<Rightarrow> world" where
  "remove_comment c w = w\<lparr>comments := filter (\<lambda>pc. posted_id pc \<noteq> c) (comments w)\<rparr>"

definition add_job :: "queued_job \<Rightarrow> world \<Rightarrow> world" where
  "add_job qj w = w\<lparr>jobs := jobs w @ [qj]\<rparr>"

definition ok :: "'a \<Rightarrow> 'a io" where
  "ok x w = (Inr x, w)"

definition throw :: "error \<Rightarrow> 'a io" where
  "throw e w = (Inl e, w)"

text \<open>\<open>await m; f\<close>: a rejected promise skips the rest of the block.\<close>

definition io_bind :: "'a io \<Rightarrow> ('a \<Rightarrow> 'b io) \<Rightarrow> 'b io" where
  "io_bind m f w = (case m w of (Inl e, w') \<Rightarrow> (Inl e, w') | (Inr x, w') \<Rightarrow> f x w')"

subsection \<open>octokit\<close>

definition getCollaboratorPermissionLevel :: "env \<Rightarrow> string \<Rightarrow> string \<Rightarrow> string \<Rightarrow> string io" where
  "getCollaboratorPermissionLevel env ow rp username w =
     (env_permission env w ow rp username,
      emit (GetCollaboratorPermissionLevel ow rp username) w)"

definition pulls_get :: "env \<Rightarrow> string \<Rightarrow> string \<Rightarrow> int \<Rightarrow> pull io" where
  "pulls_get env ow rp n w = (env_pulls_get env w ow rp n, emit (PullsGet ow rp n) w)"

definition createComment :: "env \<Rightarrow> string \<Rightarrow> string \<Rightarrow> int \<Rightarrow> string \<Rightarrow> int io" where
  "createComment env ow rp n text w =
     (case env_create_comment env w ow rp n text of
        Inl e \<Rightarrow> (Inl e, emit (CreateComment ow rp n text) w)
      | Inr new_id \<Rightarrow>
          (Inr new_id,
           add_comment
             \<lparr>posted_id = new_id, posted_owner = ow, posted_repo = rp,
              posted_issue_number = n, posted_body = text\<rparr>
             (emit (CreateComment ow rp n text) w)))"

definition deleteComment :: "env \<Rightarrow> string \<Rightarrow> string \<Rightarrow> int \<Rightarrow> unit io" where
  "deleteComment env ow rp c w =
     (case env_delete_comment env w ow rp c of
        Some e \<Rightarrow> (Inl e, emit (DeleteComment ow rp c) w)
      | None \<Rightarrow> (Inr (), remove_comment c (emit (DeleteComment ow rp c) w)))"

definition app_auth :: "env \<Rightarrow> int \<Rightarrow> unit io" where
  "app_auth env inst w =
     (case env_app_auth env w inst of
        Some e \<Rightarrow> (Inl e, emit (AppAuth inst) w)
      | None \<Rightarrow> (Inr (), emit (AppAuth inst) w))"

subsection \<open>services/backend-api.ts\<close>

text \<open>
  The common shape of the methods of \<open>BackendAPI\<close>: \<open>fetch\<close>, then
  \<open>if (!response.ok) throw new Error(`<failure>: ${response.statusText}`)\<close>, then
  \<open>return response.json()\<close>.
\<close>

definition backend_call :: "env \<Rightarrow> request \<Rightarrow> string \<Rightarrow> json io" where
  "backend_call env rq failure w =
     (case env_fetch env w rq of
        Inl e \<Rightarrow> (Inl e, emit (Fetch rq) w)
      | Inr r \<Rightarrow>
          if \<not> resp_ok r then (Inl (Error (failure @ '': '' @ statusText r)), emit (Fetch rq) w)
          else (resp_json r, emit (Fetch rq) w))"

text \<open>An optional member: left out by \<open>JSON.stringify\<close> when \<open>undefined\<close>.\<close>

definition opt_member :: "string \<Rightarrow> json option \<Rightarrow> (string \<times> json) list" where
  "opt_member k v = (case v of None \<Rightarrow> [] | Some j \<Rightarrow> [(k, j)])"

text \<open>A member that is a number or \<open>null\<close>.\<close>

definition nullable :: "int option \<Rightarrow> json" where
  "nullable v = (case v of None \<Rightarrow> JNull | Some n \<Rightarrow> JNum n)"

text \<open>
  The argument of \<open>classifyIssue\<close> as \<open>handleMaintainerCommand\<close> builds it:
  \<open>None\<close> is \<open>undefined\<close> (\<open>difficulty ?? undefined\<close>), and \<open>hidden\<close> is
  \<open>true\<close> or \<open>undefined\<close>.
\<close>

record classify_data =
  c_githubRepoId :: int
  c_githubIssueId :: int
  c_difficulty :: "int option"
  c_issueType :: "IssueType option"
  c_hidden :: "bool option"
  c_actor_githubId :: int
  c_actor_username :: string

definition classify_request :: "classify_data \<Rightarrow> request" where
  "classify_request d =
     \<lparr>http_method = ''POST'', path = ''/bot/issues/classify'',
      req_body = Some (JObj
        ([(''githubRepoId'', JNum (c_githubRepoId d)),
          (''githubIssueId'', JNum (c_githubIssueId d))]
         @ opt_member ''difficulty'' (map_option JNum (c_difficulty d))
         @ opt_member ''issueType'' (map_option (\<lambda>t. JStr (issueType_name t)) (c_issueType d))
         @ opt_member ''hidden'' (map_option JBool (c_hidden d))
         @ [(''actor'', JObj [(''type'', JStr ''user''),
              (''githubId'', JNum (c_actor_githubId d)),
              (''username'', JStr (c_actor_username d))])]))\<rparr>"

definition classifyIssue :: "env \<Rightarrow> classify_data \<Rightarrow> json io" where
  "classifyIssue env d = backend_call env (classify_request d) ''Failed to classify issue''"

text \<open>
  The argument of \<open>submitFeedback\<close>: the two ratings are a number or \<open>null\<close>.
  There is no actor member.
\<close>

record feedback_data =
  f_githubPrId :: int
  f_githubRepoId :: int
  f_difficultyRating :: "int option"
  f_responsivenessRating :: "int option"

definition feedback_request :: "feedback_data \<Rightarrow> request" where
  "feedback_request d =
     \<lparr>http_method = ''POST'', path = ''/bot/feedback'',
      req_body = Some (JObj
        [(''githubPrId'', JNum (f_githubPrId d)),
         (''githubRepoId'', JNum (f_githubRepoId d)),
         (''difficultyRating'', nullable (f_difficultyRating d)),
         (''responsivenessRating'', nullable (f_responsivenessRating d))])\<rparr>"

definition submitFeedback :: "env \<Rightarrow> feedback_data \<Rightarrow> json io" where
  "submitFeedback env d = backend_call env (feedback_request d) ''Failed to submit feedback''"

text \<open>\<open>deleteIssue\<close> with \<open>actor: { type: 'bot' }\<close>, as the pull-request handler calls it.\<close>

definition delete_issue_request :: "int \<Rightarrow> int \<Rightarrow> request" where
  "delete_issue_request githubRepoId githubIssueId =
     \<lparr>http_method = ''DELETE'', path = ''/bot/issues'',
      req_body = Some (JObj
        [(''githubRepoId'', JNum githubRepoId),
         (''githubIssueId'', JNum githubIssueId),
         (''actor'', JObj [(''type'', JStr ''bot'')])])\<rparr>"

definition deleteIssue :: "env \<Rightarrow> int \<Rightarrow> int \<Rightarrow> json io" where
  "deleteIssue env githubRepoId githubIssueId =
     backend_call env (delete_issue_request githubRepoId githubIssueId)
       ''Failed to delete issue''"

text \<open>
  \<open>writeLog\<close>: the body is
  \<open>JSON.stringify({ action: log.action, entityType: log.entityType,
  entityId: log.entityId, context: log.context })\<close>.
\<close>

definition writeLog_body :: "LogEntry \<Rightarrow> (string \<times> json) list" where
  "writeLog_body log =
     [(''action'', JStr (action log)),
      (''entityType'', JStr (entityType_name (entityType log))),
      (''entityId'', JStr (entityId log))]
     @ opt_member ''context'' (map_option JObj (log_context log))"

definition log_request :: "LogEntry \<Rightarrow> request" where
  "log_request log =
     \<lparr>http_method = ''POST'', path = ''/bot/logs'', req_body = Some (JObj (writeLog_body log))\<rparr>"

definition writeLog :: "env \<Rightarrow> LogEntry \<Rightarrow> json io" where
  "writeLog env log w =
     backend_call env (log_request log) ''Failed to write log'' (emit (WriteLog log) w)"

subsection \<open>services/logger.ts\<close>

definition logSystem ::
  "env \<Rightarrow> string \<Rightarrow> EntityType \<Rightarrow> string \<Rightarrow> (string \<times> json) list option \<Rightarrow> unit io" where
  "logSystem env act et eid ctx =
     io_bind (writeLog env
       \<lparr>actorType = System, actorGithubId = None, actorUsername = None,
        action = act, entityType = et, entityId = eid, log_context = ctx\<rparr>) (\<lambda>_. ok ())"

definition logBot ::
  "env \<Rightarrow> string \<Rightarrow> EntityType \<Rightarrow> string \<Rightarrow> (string \<times> json) list option \<Rightarrow> unit io" where
  "logBot env act et eid ctx =
     io_bind (writeLog env
       \<lparr>actorType = Bot, actorGithubId = None, actorUsername = None,
        action = act, entityType = et, entityId = eid, log_context = ctx\<rparr>) (\<lambda>_. ok ())"

definition logMaintainer ::
  "env \<Rightarrow> int \<Rightarrow> string \<Rightarrow> string \<Rightarrow> EntityType \<Rightarrow> string \<Rightarrow> (string \<times> json) list option
     \<Rightarrow> unit io" where
  "logMaintainer env githubId username act et eid ctx =
     io_bind (writeLog env
       \<lparr>actorType = Maintainer, actorGithubId = Some githubId, actorUsername = Some username,
        action = act, entityType = et, entityId = eid, log_context = ctx\<rparr>) (\<lambda>_. ok ())"

definition logContributor ::
  "env \<Rightarrow> string \<Rightarrow> EntityType \<Rightarrow> string \<Rightarrow> (string \<times> json) list option \<Rightarrow> unit io" where
  "logContributor env act et eid ctx =
     io_bind (writeLog env
       \<lparr>actorType = Contributor, actorGithubId = None, actorUsername = None,
        action = act, entityType = et, entityId = eid, log_context = ctx\<rparr>) (\<lambda>_. ok ())"

subsection \<open>queues/cleanup.ts: scheduling\<close>

text \<open>The three arguments of \<open>cleanupQueue.add\<close> in \<open>scheduleCleanup\<close>.\<close>

definition delete_comment_job :: "CleanupJob \<Rightarrow> nat \<Rightarrow> queued_job" where
  "delete_comment_job job delayMs =
     \<lparr>job_name = ''delete-comment'', job_data = job,
      job_options = \<lparr>delay = delayMs, attempts = 3,
        backoff = \<lparr>backoff_type = ''exponential'', backoff_delay = 5000\<rparr>\<rparr>\<rparr>"

definition scheduleCleanup :: "env \<Rightarrow> CleanupJob \<Rightarrow> nat \<Rightarrow> unit io" where
  "scheduleCleanup env job delayMs w =
     (case env_queue_add env w (delete_comment_job job delayMs) of
        Some e \<Rightarrow> (Inl e, emit (QueueAdd (delete_comment_job job delayMs)) w)
      | None \<Rightarrow>
          (Inr (),
           add_job (delete_comment_job job delayMs)
             (emit (QueueAdd (delete_comment_job job delayMs)) w)))"

section \<open>Command handlers\<close>

text \<open>
  The handlers return nothing in the source; the model returns where the handler left:
  \<open>Ignored\<close> is the early return on a text (or event) that is not for this handler,
  \<open>Denied\<close> the return after a failed validation, \<open>NoCommand\<close> a \<open>try\<close> block
  that found nothing to do, \<open>Done\<close> a \<open>try\<close> block that ran to its last statement,
  and \<open>Caught e\<close> the \<open>catch\<close> block (which only writes to the operational log).
\<close>

datatype outcome = Ignored | Denied | NoCommand | Done | Caught error

definition run_try :: "outcome io \<Rightarrow> world \<Rightarrow> outcome \<times> world" where
  "run_try m w = (case m w of (Inl e, w') \<Rightarrow> (Caught e, w') | (Inr out, w') \<Rightarrow> (out, w'))"

text \<open>\<open>context.payload.installation!.id\<close>.\<close>

definition installation_id :: "int option \<Rightarrow> int io" where
  "installation_id inst = (case inst of None \<Rightarrow> throw TypeError | Some i \<Rightarrow> ok i)"

subsection \<open>commands/maintainer.ts\<close>

definition hasMaintainerPermission ::
  "env \<Rightarrow> string \<Rightarrow> string \<Rightarrow> string \<Rightarrow> world \<Rightarrow> bool \<times> world" where
  "hasMaintainerPermission env ow rp username w =
     (case getCollaboratorPermissionLevel env ow rp username w of
        (Inl e, w') \<Rightarrow> (False, w')
      | (Inr permission, w') \<Rightarrow> (permission \<in> set [''write'', ''maintain'', ''admin''], w'))"

text \<open>The elements pushed to \<open>changes\<close>, in order.\<close>

definition changes :: "int option \<Rightarrow> IssueType option \<Rightarrow> bool \<Rightarrow> string list" where
  "changes difficulty issueType shouldHide =
     (case difficulty of None \<Rightarrow> [] | Some d \<Rightarrow> [''difficulty '' @ show_int d])
     @ (case issueType of None \<Rightarrow> [] | Some t \<Rightarrow> [''type '' @ issueType_name t])
     @ (if shouldHide then [''hidden from discovery''] else [])"

text \<open>The check mark U+2705 that opens both confirmations, in UTF-8.\<close>

definition check_mark :: string where
  "check_mark = [CHR 0xE2, CHR 0x9C, CHR 0x85]"

definition maintainer_confirmation :: "int option \<Rightarrow> IssueType option \<Rightarrow> bool \<Rightarrow> string" where
  "maintainer_confirmation difficulty issueType shouldHide =
     check_mark @ '' Issue updated: '' @ join '', '' (changes difficulty issueType shouldHide)"

text \<open>The \<open>CleanupJob\<close> literal both command handlers build, for a comment of the thread.\<close>

definition comment_job :: "issue_comment_created \<Rightarrow> int \<Rightarrow> int \<Rightarrow> CleanupJob" where
  "comment_job p c inst =
     \<lparr>owner = repo_owner_login (ic_repository p), repo = repo_name (ic_repository p),
      commentId = c, issueNumber = Some (issue_number (ic_issue p)), installationId = inst\<rparr>"

text \<open>The \<open>try\<close> block of \<open>handleMaintainerCommand\<close>.\<close>

definition maintainer_try :: "env \<Rightarrow> issue_comment_created \<Rightarrow> outcome io" where
  "maintainer_try env p =
     (let difficulty = parseDifficultyCommand (comment_body (ic_comment p));
          issueType = parseTypeCommand (comment_body (ic_comment p));
          shouldHide = isHideCommand (comment_body (ic_comment p))
      in if difficulty \<noteq> None \<or> issueType \<noteq> None \<or> shouldHide then
           io_bind (classifyIssue env
             \<lparr>c_githubRepoId = repo_id (ic_repository p),
              c_githubIssueId = issue_id (ic_issue p),
              c_difficulty = difficulty,
              c_issueType = issueType,
              c_hidden = (if shouldHide then Some True else None),
              c_actor_githubId = user_id (ic_sender p),
              c_actor_username = user_login (ic_sender p)\<rparr>) (\<lambda>_.
           io_bind (createComment env (repo_owner_login (ic_repository p))
             (repo_name (ic_repository p)) (issue_number (ic_issue p))
             (maintainer_confirmation difficulty issueType shouldHide)) (\<lambda>confirmation.
           io_bind (installation_id (ic_installation p)) (\<lambda>inst.
           io_bind (scheduleCleanup env (comment_job p (comment_id (ic_comment p)) inst) 60000) (\<lambda>_.
           io_bind (installation_id (ic_installation p)) (\<lambda>inst'.
           io_bind (scheduleCleanup env (comment_job p confirmation inst') 60000) (\<lambda>_.
           ok Done))))))
         else ok NoCommand)"

definition handleMaintainerCommand ::
  "env \<Rightarrow> issue_comment_created \<Rightarrow> world \<Rightarrow> outcome \<times> world" where
  "handleMaintainerCommand env p w =
     (if \<not> includes_str (comment_body (ic_comment p)) ''/reposignal'' then (Ignored, w)
      else case hasMaintainerPermission env (repo_owner_login (ic_repository p))
                  (repo_name (ic_repository p)) (user_login (ic_sender p)) w of
        (hasPermission, w1) \<Rightarrow>
          if \<not> hasPermission then (Denied, w1) else run_try (maintainer_try env p) w1)"

subsection \<open>commands/contributor.ts\<close>

text \<open>The result of \<open>isValidFeedbackContext\<close>: \<open>prId\<close> is absent unless \<open>valid\<close>.\<close>

record feedback_context =
  valid :: bool
  prId :: "int option"

definition isValidFeedbackContext ::
  "env \<Rightarrow> string \<Rightarrow> string \<Rightarrow> int \<Rightarrow> int \<Rightarrow> world \<Rightarrow> feedback_context \<times> world" where
  "isValidFeedbackContext env ow rp issueNum commenterId w =
     (case pulls_get env ow rp issueNum w of
        (Inl e, w') \<Rightarrow> (\<lparr>valid = False, prId = None\<rparr>, w')
      | (Inr pr, w') \<Rightarrow>
          if pull_merged pr \<and> map_option user_id (pull_user pr) = Some commenterId
          then (\<lparr>valid = True, prId = Some (pull_id pr)\<rparr>, w')
          else (\<lparr>valid = False, prId = None\<rparr>, w'))"

definition contributor_confirmation :: string where
  "contributor_confirmation = check_mark @ '' Thank you for your anonymous feedback!''"

text \<open>The \<open>try\<close> block of \<open>handleContributorFeedback\<close>, for the validated \<open>prId\<close>.\<close>

definition contributor_try :: "env \<Rightarrow> issue_comment_created \<Rightarrow> int \<Rightarrow> outcome io" where
  "contributor_try env p pr_id =
     (let difficultyRating = parseDifficultyRating (comment_body (ic_comment p));
          responsivenessRating = parseResponsivenessRating (comment_body (ic_comment p))
      in if difficultyRating = None \<and> responsivenessRating = None then ok NoCommand
         else
           io_bind (submitFeedback env
             \<lparr>f_githubPrId = pr_id,
              f_githubRepoId = repo_id (ic_repository p),
              f_difficultyRating = difficultyRating,
              f_responsivenessRating = responsivenessRating\<rparr>) (\<lambda>_.
           io_bind (logContributor env ''feedback_received'' Repo
             (''repo#'' @ show_int (repo_id (ic_repository p)))
             (Some [(''difficulty_rating'', nullable difficultyRating),
                    (''responsiveness_rating'', nullable responsivenessRating)])) (\<lambda>_.
           io_bind (createComment env (repo_owner_login (ic_repository p))
             (repo_name (ic_repository p)) (issue_number (ic_issue p))
             contributor_confirmation) (\<lambda>confirmation.
           io_bind (installation_id (ic_installation p)) (\<lambda>inst.
           io_bind (scheduleCleanup env (comment_job p (comment_id (ic_comment p)) inst) 60000) (\<lambda>_.
           io_bind (installation_id (ic_installation p)) (\<lambda>inst'.
           io_bind (scheduleCleanup env (comment_job p confirmation inst') 60000) (\<lambda>_.
           ok Done))))))))"

text \<open>
  \<open>if (!valid || !prId) return\<close>: \<open>!prId\<close> holds for \<open>undefined\<close> and for the
  number 0.
\<close>

definition handleContributorFeedback ::
  "env \<Rightarrow> issue_comment_created \<Rightarrow> world \<Rightarrow> outcome \<times> world" where
  "handleContributorFeedback env p w =
     (if \<not> includes_str (comment_body (ic_comment p)) ''/reposignal rate'' then (Ignored, w)
      else case isValidFeedbackContext env (repo_owner_login (ic_repository p))
                  (repo_name (ic_repository p)) (issue_number (ic_issue p))
                  (user_id (ic_sender p)) w of
        (fc, w1) \<Rightarrow>
          (case prId fc of
             None \<Rightarrow> (Denied, w1)
           | Some pr_id \<Rightarrow>
               if \<not> valid fc \<or> pr_id = 0 then (Denied, w1)
               else run_try (contributor_try env p pr_id) w1))"

subsection \<open>events/comment.ts\<close>

text \<open>The callback registered for \<open>issue_comment.created\<close>.\<close>

definition on_issue_comment_created ::
  "env \<Rightarrow> issue_comment_created \<Rightarrow> world \<Rightarrow> outcome \<times> world" where
  "on_issue_comment_created env p w =
     (if \<not> includes_str (comment_body (ic_comment p)) ''/reposignal'' then (Ignored, w)
      else if includes_str (comment_body (ic_comment p)) ''/reposignal rate''
        then handleContributorFeedback env p w
        else handleMaintainerCommand env p w)"

section \<open>Event handlers that post a nudge\<close>

definition line_feed :: string where
  "line_feed = [CHR 0x0A]"

text \<open>The waving hand U+1F44B and the party popper U+1F389, in UTF-8.\<close>

definition waving_hand :: string where
  "waving_hand = [CHR 0xF0, CHR 0x9F, CHR 0x91, CHR 0x8B]"

definition party_popper :: string where
  "party_popper = [CHR 0xF0, CHR 0x9F, CHR 0x8E, CHR 0x89]"

definition issue_nudge :: string where
  "issue_nudge =
     waving_hand @ '' Thanks for opening this issue! Maintainers can classify it using:''
     @ line_feed @ line_feed @ ''`/reposignal difficulty <1-5>`''
     @ line_feed @ ''`/reposignal type <docs|bug|feature|refactor|test|infra>`''
     @ line_feed @ line_feed @ ''Or hide it from discovery: `/reposignal hide`''"

definition feedback_nudge :: string where
  "feedback_nudge =
     party_popper @ '' Thanks for your contribution!''
     @ line_feed @ line_feed @ ''Help us improve by sharing your experience:''
     @ line_feed @ line_feed @ ''`/reposignal rate difficulty <1-5>`''
     @ line_feed @ ''`/reposignal rate responsiveness <1-5>`''
     @ line_feed @ line_feed @ ''Your feedback is anonymous and helps future contributors.''"

subsection \<open>The callback registered for \<open>issues.opened\<close>\<close>

definition issues_opened_try :: "env \<Rightarrow> issues_opened \<Rightarrow> outcome io" where
  "issues_opened_try env p =
     io_bind (createComment env (repo_owner_login (io_repository p))
       (repo_name (io_repository p)) (issue_number (io_issue p)) issue_nudge) (\<lambda>nudge.
     io_bind (logBot env ''issue_nudge_posted'' Issue
       (''issue#'' @ show_int (issue_id (io_issue p)))
       (Some [(''issueNumber'', JNum (issue_number (io_issue p)))])) (\<lambda>_.
     io_bind (installation_id (io_installation p)) (\<lambda>inst.
     io_bind (scheduleCleanup env
       \<lparr>owner = repo_owner_login (io_repository p), repo = repo_name (io_repository p),
        commentId = nudge, issueNumber = Some (issue_number (io_issue p)),
        installationId = inst\<rparr> 300000) (\<lambda>_.
     ok Done))))"

definition on_issues_opened :: "env \<Rightarrow> issues_opened \<Rightarrow> world \<Rightarrow> outcome \<times> world" where
  "on_issues_opened env p w = run_try (issues_opened_try env p) w"

subsection \<open>events/pull-request.ts\<close>

text \<open>
  \<open>pull_request.body?.match(/(close[sd]?|fix(e[sd])?|resolve[sd]?)\s+#(\d+)/gi)\<close>.
  Each optional part is followed by \<open>\s+\<close>, which none of its characters can match,
  so taking it when it is there loses no match.
\<close>

definition opt_sd :: "string \<Rightarrow> string" where
  "opt_sd s =
     (case s of [] \<Rightarrow> s
      | c # cs \<Rightarrow> if ascii_lower c = of_char CHR ''s'' \<or> ascii_lower c = of_char CHR ''d''
                 then cs else s)"

definition opt_esd :: "string \<Rightarrow> string" where
  "opt_esd s =
     (case ci_literal ''e'' s of None \<Rightarrow> s
      | Some r \<Rightarrow> (case r of [] \<Rightarrow> s
          | c # cs \<Rightarrow> if ascii_lower c = of_char CHR ''s'' \<or> ascii_lower c = of_char CHR ''d''
                 then cs else s))"

definition closing_keyword :: "string \<Rightarrow> string option" where
  "closing_keyword s =
     (case ci_literal ''close'' s of Some r \<Rightarrow> Some (opt_sd r)
      | None \<Rightarrow> (case ci_literal ''fix'' s of Some r \<Rightarrow> Some (opt_esd r)
      | None \<Rightarrow> (case ci_literal ''resolve'' s of Some r \<Rightarrow> Some (opt_sd r)
      | None \<Rightarrow> None)))"

definition is_digit :: "char \<Rightarrow> bool" where
  "is_digit c = ((48::nat) \<le> of_char c \<and> of_char c \<le> (57::nat))"

text \<open>
  \<open>parseInt\<close> of a string of decimal digits.  The value here is the exact integer;
  the source's is the nearest double, which is the same number up to \<open>2^53\<close> and may
  differ above (from \<open>2^53 + 1\<close> on), where the model shows the digits as written and
  the source those of the rounded number.  The numbers reach only the requests and log
  entries of the loop over the linked issues.
\<close>

definition parse_digits :: "string \<Rightarrow> int" where
  "parse_digits ds = foldl (\<lambda>acc c. 10 * acc + (int (of_char c) - 48)) 0 ds"

text \<open>
  The pattern anchored at the start of \<open>s\<close>: the number after \<open>#\<close> and the length
  of the matched text.
\<close>

definition linked_at :: "string \<Rightarrow> (int \<times> nat) option" where
  "linked_at s =
     (case closing_keyword s of None \<Rightarrow> None
      | Some r1 \<Rightarrow> (case spaces1 r1 of None \<Rightarrow> None
      | Some r2 \<Rightarrow> (case r2 of [] \<Rightarrow> None
      | c # r3 \<Rightarrow>
          if c = CHR ''#'' \<and> takeWhile is_digit r3 \<noteq> []
          then Some (parse_digits (takeWhile is_digit r3),
                     length s - length (dropWhile is_digit r3))
          else None)))"

text \<open>
  All matches from the left (the \<open>g\<close> flag): after a match the search goes on behind
  it; \<open>skip\<close> counts the characters still covered by the last match.
\<close>

fun linked_issues :: "nat \<Rightarrow> string \<Rightarrow> int list" where
  "linked_issues skip [] = []"
| "linked_issues (Suc skip) (c # cs) = linked_issues skip cs"
| "linked_issues 0 (c # cs) =
     (case linked_at (c # cs) of
        Some (n, len) \<Rightarrow> n # linked_issues (len - 1) cs
      | None \<Rightarrow> linked_issues 0 cs)"

text \<open>The \<open>for\<close> loop over the linked issues.\<close>

fun delete_linked :: "env \<Rightarrow> pull_request_closed \<Rightarrow> int list \<Rightarrow> unit io" where
  "delete_linked env p [] w = (Inr (), w)"
| "delete_linked env p (issueNum # rest) w =
     (case deleteIssue env (repo_id (pc_repository p)) issueNum w of
        (Inl e, w1) \<Rightarrow> (Inl e, w1)
      | (Inr _, w1) \<Rightarrow>
          (case logBot env ''issue_deleted'' Issue (''issue#'' @ show_int issueNum)
                  (Some [(''reason'', JStr ''pr_merged''),
                         (''prNumber'', JNum (pr_number (pc_pull_request p))),
                         (''repoId'', JNum (repo_id (pc_repository p)))]) w1 of
             (Inl e, w2) \<Rightarrow> (Inl e, w2)
           | (Inr _, w2) \<Rightarrow> delete_linked env p rest w2))"

text \<open>
  The inner \<open>try\<close> block with its \<open>catch\<close>, which swallows the error
  (\<open>Don't throw - this shouldn't block the feedback flow\<close>).
\<close>

definition delete_linked_issues :: "env \<Rightarrow> pull_request_closed \<Rightarrow> unit io" where
  "delete_linked_issues env p w =
     (if pr_head_repo (pc_pull_request p) then
        (case pr_body (pc_pull_request p) of
           None \<Rightarrow> (Inr (), w)
         | Some text \<Rightarrow> (Inr (), snd (delete_linked env p (linked_issues 0 text) w)))
      else (Inr (), w))"

definition pull_request_closed_try :: "env \<Rightarrow> pull_request_closed \<Rightarrow> outcome io" where
  "pull_request_closed_try env p =
     io_bind (createComment env (repo_owner_login (pc_repository p))
       (repo_name (pc_repository p)) (pr_number (pc_pull_request p)) feedback_nudge) (\<lambda>nudge.
     io_bind (logBot env ''feedback_prompted'' Repo
       (''repo#'' @ show_int (repo_id (pc_repository p)))
       (Some [(''prNumber'', JNum (pr_number (pc_pull_request p)))])) (\<lambda>_.
     io_bind (installation_id (pc_installation p)) (\<lambda>inst.
     io_bind (scheduleCleanup env
       \<lparr>owner = repo_owner_login (pc_repository p), repo = repo_name (pc_repository p),
        commentId = nudge, issueNumber = Some (pr_number (pc_pull_request p)),
        installationId = inst\<rparr> 3600000) (\<lambda>_.
     io_bind (delete_linked_issues env p) (\<lambda>_.
     ok Done)))))"

definition on_pull_request_closed ::
  "env \<Rightarrow> pull_request_closed \<Rightarrow> world \<Rightarrow> outcome \<times> world" where
  "on_pull_request_closed env p w =
     (if \<not> pr_merged (pc_pull_request p) then (Ignored, w)
      else run_try (pull_request_closed_try env p) w)"

section \<open>The cleanup worker\<close>

text \<open>
  The processor \<open>initCleanupWorker\<close> registers: authenticate for the installation,
  delete the comment, write the system log entry; its \<open>catch\<close> rethrows.  A member
  of the log context whose value is \<open>undefined\<close> is not written.
\<close>

definition process_job :: "env \<Rightarrow> CleanupJob \<Rightarrow> unit io" where
  "process_job env job =
     io_bind (app_auth env (installationId job)) (\<lambda>_.
     io_bind (deleteComment env (owner job) (repo job) (commentId job)) (\<lambda>_.
     logSystem env ''comment_cleaned_up'' Comment (''comment#'' @ show_int (commentId job))
       (Some ([(''owner'', JStr (owner job)), (''repo'', JStr (repo job))]
              @ opt_member ''issueNumber'' (map_option JNum (issueNumber job))))))"

text \<open>
  Modelled from the spec: the retry policy of the queue's worker, which is the BullMQ
  library and is not in the sources.  Section 4.5 of the specification: the state
  machine of a job is \<open>Pending \<rightarrow> Running \<rightarrow> {Completed | Retrying \<rightarrow> Running | Failed}\<close>;
  on failure, if the attempt count is below the job's \<open>attempts\<close>, the job goes to
  Retrying with an exponential backoff delay (the base delay, doubling per attempt)
  before it is eligible again; if the attempt count has reached \<open>attempts\<close>, it goes to
  Failed for good.  \<open>scheduleCleanup\<close> asks for the exponential backoff on every job, so
  that is the only kind modelled.
\<close>

datatype job_state = Pending | Running | Retrying nat | Completed | Failed

text \<open>
  Modelled from the spec: the backoff delay of the BullMQ worker (not in the sources)
  after \<open>attemptsMade\<close> failed attempts, the base delay doubling per attempt.
\<close>

definition backoff_ms :: "job_opts \<Rightarrow> nat \<Rightarrow> nat" where
  "backoff_ms opts attemptsMade = backoff_delay (backoff opts) * 2 ^ (attemptsMade - 1)"

text \<open>
  Modelled from the spec: the retry loop of the BullMQ worker (not in the sources), around
  the processor of the sources.  \<open>worker_run env qj attemptsMade w\<close> is the rest of the
  life of job \<open>qj\<close> after \<open>attemptsMade\<close> failed attempts: the states it goes through
  and the world it leaves.
\<close>

function worker_run :: "env \<Rightarrow> queued_job \<Rightarrow> nat \<Rightarrow> world \<Rightarrow> job_state list \<times> world" where
  "worker_run env qj attemptsMade w =
     (case process_job env (job_data qj) w of
        (Inr _, w') \<Rightarrow> ([Running, Completed], w')
      | (Inl e, w') \<Rightarrow>
          if Suc attemptsMade < attempts (job_options qj)
          then (case worker_run env qj (Suc attemptsMade) w' of
                  (states, w'') \<Rightarrow>
                    (Running # Retrying (backoff_ms (job_options qj) (Suc attemptsMade)) # states,
                     w''))
          else ([Running, Failed], w'))"
  by pat_completeness auto
termination
  by (relation "measure (\<lambda>(env, qj, attemptsMade, w). attempts (job_options qj) - attemptsMade)")
     auto

declare worker_run.simps [simp del]

text \<open>The life of a queued job, from the moment it is due.\<close>

definition job_history :: "env \<Rightarrow> queued_job \<Rightarrow> world \<Rightarrow> job_state list \<times> world" where
  "job_history env qj w = (case worker_run env qj 0 w of (states, w') \<Rightarrow> (Pending # states, w'))"

text \<open>How often the processor ran, and the backoff delays, read off a history.\<close>

definition attempts_made :: "job_state list \<Rightarrow> nat" where
  "attempts_made states = length (filter (\<lambda>s. s = Running) states)"

fun retry_delays :: "job_state list \<Rightarrow> nat list" where
  "retry_delays [] = []"
| "retry_delays (Retrying d # states) = d # retry_delays states"
| "retry_delays (s # states) = retry_delays states"

section \<open>Notions used to state the properties\<close>

text \<open>The calls a handler added to the trace, given the world before and after.\<close>

definition new_calls :: "world \<Rightarrow> world \<Rightarrow> call list" where
  "new_calls w w' = drop (length (trace w)) (trace w')"

text \<open>
  The side effects of a dispatch: the mutating call to the backend (classification or
  feedback), the post of a comment, the scheduling of a cleanup.  Reads of the platform
  and writes of the audit log are none of the three.
\<close>

datatype effect = Mutation | Confirmation | Cleanup

fun effect_of :: "call \<Rightarrow> effect list" where
  "effect_of (Fetch rq) =
     (if path rq = ''/bot/issues/classify'' \<or> path rq = ''/bot/feedback'' then [Mutation]
      else [])"
| "effect_of (CreateComment ow rp n msg) = [Confirmation]"
| "effect_of (QueueAdd qj) = [Cleanup]"
| "effect_of c = []"

definition effects :: "call list \<Rightarrow> effect list" where
  "effects cs = concat (map effect_of cs)"

text \<open>A backend request that fails: \<open>fetch\<close> rejects, the status is not ok, or the body
  is not JSON.\<close>

definition backend_fails :: "env \<Rightarrow> world \<Rightarrow> request \<Rightarrow> bool" where
  "backend_fails env w rq =
     (case env_fetch env w rq of
        Inl e \<Rightarrow> True
      | Inr r \<Rightarrow> (if resp_ok r then (case resp_json r of Inl e \<Rightarrow> True | Inr j \<Rightarrow> False)
                  else True))"

text \<open>The worlds after a comment was posted, after a job was queued, and after
  \<open>writeLog\<close> was called.\<close>

definition posted :: "string \<Rightarrow> string \<Rightarrow> int \<Rightarrow> string \<Rightarrow> int \<Rightarrow> world \<Rightarrow> world" where
  "posted ow rp n msg c w =
     add_comment
       \<lparr>posted_id = c, posted_owner = ow, posted_repo = rp,
        posted_issue_number = n, posted_body = msg\<rparr>
       (emit (CreateComment ow rp n msg) w)"

definition queued :: "queued_job \<Rightarrow> world \<Rightarrow> world" where
  "queued qj w = add_job qj (emit (QueueAdd qj) w)"

definition logged :: "LogEntry \<Rightarrow> world \<Rightarrow> world" where
  "logged log w = emit (Fetch (log_request log)) (emit (WriteLog log) w)"

section \<open>Example inputs\<close>

text \<open>
  Services that all answer well: the commenter has \<open>write\<close> permission, the thread
  is the merged pull request 9001 of the commenter, and every call succeeds.
\<close>

definition example_response :: response where
  "example_response = \<lparr>resp_ok = True, statusText = ''OK'', resp_json = Inr (JObj [])\<rparr>"

definition example_pull :: pull where
  "example_pull =
     \<lparr>pull_id = 9001, pull_merged = True,
      pull_user = Some \<lparr>user_id = 7, user_login = ''ann''\<rparr>\<rparr>"

definition example_env :: env where
  "example_env =
     \<lparr>env_permission = (\<lambda>w ow rp username. Inr ''write''),
      env_pulls_get = (\<lambda>w ow rp n. Inr example_pull),
      env_create_comment = (\<lambda>w ow rp n msg. Inr 501),
      env_delete_comment = (\<lambda>w ow rp c. None),
      env_app_auth = (\<lambda>w inst. None),
      env_fetch = (\<lambda>w rq. Inr example_response),
      env_queue_add = (\<lambda>w qj. None)\<rparr>"

definition example_command :: issue_comment_created where
  "example_command =
     \<lparr>ic_comment = \<lparr>comment_id = 500, comment_body = ''/reposignal difficulty 3''\<rparr>,
      ic_issue = \<lparr>issue_id = 77, issue_number = 12\<rparr>,
      ic_repository = \<lparr>repo_id = 1, repo_name = ''repo'', repo_owner_login = ''org''\<rparr>,
      ic_sender = \<lparr>user_id = 7, user_login = ''ann''\<rparr>,
      ic_installation = Some 42\<rparr>"

definition example_rating :: issue_comment_created where
  "example_rating =
     example_command\<lparr>ic_comment := \<lparr>comment_id = 500,
       comment_body = ''/reposignal rate difficulty 4''\<rparr>\<rparr>"

definition empty_world :: world where
  "empty_world = \<lparr>trace = [], comments = [], jobs = []\<rparr>"

text \<open>An opened issue, and the merge of pull request 12, which closes issue 11.\<close>

definition example_issue :: issues_opened where
  "example_issue =
     \<lparr>io_issue = \<lparr>issue_id = 77, issue_number = 12\<rparr>,
      io_repository = \<lparr>repo_id = 1, repo_name = ''repo'', repo_owner_login = ''org''\<rparr>,
      io_installation = Some 42\<rparr>"

definition example_merge :: pull_request_closed where
  "example_merge =
     \<lparr>pc_pull_request =
        \<lparr>pr_number = 12, pr_merged = True, pr_body = Some ''Fixes #11'', pr_head_repo = True\<rparr>,
      pc_repository = \<lparr>repo_id = 1, repo_name = ''repo'', repo_owner_login = ''org''\<rparr>,
      pc_installation = Some 42\<rparr>"

text \<open>The same services, except that the log endpoint of the backend cannot be reached.\<close>

definition logs_down :: env where
  "logs_down =
     example_env\<lparr>env_fetch :=
       \<lambda>w rq. if path rq = ''/bot/logs'' then Inl NetworkError else Inr example_response\<rparr>"

text \<open>A cleanup job, and services on which every deletion of a comment fails.\<close>

definition example_job :: CleanupJob where
  "example_job =
     \<lparr>owner = ''org'', repo = ''repo'', commentId = 501, issueNumber = Some 12,
      installationId = 42\<rparr>"

definition delete_fails :: env where
  "delete_fails = example_env\<lparr>env_delete_comment := \<lambda>w ow rp c. Some (RequestError 500)\<rparr>"

text \<open>
  The same services, except that the platform refuses every post of a comment, and
  the same services except that the queue rejects every job.
\<close>

definition post_refused :: env where
  "post_refused = example_env\<lparr>env_create_comment := \<lambda>w ow rp n msg. Inl (RequestError 403)\<rparr>"

definition queue_down :: env where
  "queue_down = example_env\<lparr>env_queue_add := \<lambda>w qj. Some QueueError\<rparr>"

section \<open>White space\<close>

text \<open>The fuel that \<open>spaces1\<close> gives \<open>skip_ws\<close> is enough: no white space is left.\<close>

lemma skip_ws_exhausts: "length s \<le> n \<Longrightarrow> ws_bytes (skip_ws n s) = 0"
proof (induction n arbitrary: s)
  case 0
  then show ?case by simp
next
  case (Suc n)
  show ?case
  proof (cases "ws_bytes s = 0")
    case True
    then show ?thesis by simp
  next
    case False
    with Suc.prems have "length (drop (ws_bytes s) s) \<le> n" by simp
    from Suc.IH[OF this] False show ?thesis by simp
  qed
qed

lemma spaces1_exhausts: "spaces1 s = Some r \<Longrightarrow> ws_bytes r = 0"
  by (auto simp: spaces1_def skip_ws_exhausts split: if_splits)

section \<open>Basic facts about the world and the operations\<close>

lemma world_proj [simp]:
  "trace (emit c w) = trace w @ [c]" "comments (emit c w) = comments w"
  "jobs (emit c w) = jobs w"
  "trace (add_comment pc w) = trace w" "comments (add_comment pc w) = comments w @ [pc]"
  "jobs (add_comment pc w) = jobs w"
  "trace (add_job qj w) = trace w" "comments (add_job qj w) = comments w"
  "jobs (add_job qj w) = jobs w @ [qj]"
  "trace (remove_comment i w) = trace w" "jobs (remove_comment i w) = jobs w"
  "comments (remove_comment i w) = filter (\<lambda>pc. posted_id pc \<noteq> i) (comments w)"
  by (simp_all add: emit_def add_comment_def add_job_def remove_comment_def)

lemma posted_proj [simp]:
  "trace (posted ow rp n msg c w) = trace w @ [CreateComment ow rp n msg]"
  "comments (posted ow rp n msg c w) = comments w @
     [\<lparr>posted_id = c, posted_owner = ow, posted_repo = rp,
       posted_issue_number = n, posted_body = msg\<rparr>]"
  "jobs (posted ow rp n msg c w) = jobs w"
  by (simp_all add: posted_def)

lemma queued_proj [simp]:
  "trace (queued qj w) = trace w @ [QueueAdd qj]"
  "comments (queued qj w) = comments w"
  "jobs (queued qj w) = jobs w @ [qj]"
  by (simp_all add: queued_def)

lemma logged_proj [simp]:
  "trace (logged log w) = trace w @ [WriteLog log, Fetch (log_request log)]"
  "comments (logged log w) = comments w"
  "jobs (logged log w) = jobs w"
  by (simp_all add: logged_def)

lemma new_calls_append [simp]: "trace w' = trace w @ cs \<Longrightarrow> new_calls w w' = cs"
  by (simp add: new_calls_def)

lemma new_calls_self [simp]: "new_calls w w = []"
  by (simp add: new_calls_def)

lemma io_bind_ok: "io_bind (ok x) f = f x"
  by (rule ext) (simp add: io_bind_def ok_def)

lemma backend_call_world: "backend_call env rq f w = (r, w') \<Longrightarrow> w' = emit (Fetch rq) w"
  by (auto simp: backend_call_def split: sum.splits if_splits)

lemma backend_call_cases [case_names failed ok]:
  obtains e where "backend_call env rq f w = (Inl e, emit (Fetch rq) w)"
  | j where "backend_call env rq f w = (Inr j, emit (Fetch rq) w)" "\<not> backend_fails env w rq"
proof (cases "env_fetch env w rq")
  case (Inl e)
  then have "backend_call env rq f w = (Inl e, emit (Fetch rq) w)"
    by (simp add: backend_call_def)
  then show ?thesis by (rule that(1))
next
  case (Inr r)
  show ?thesis
  proof (cases "resp_ok r")
    case False
    with Inr have "backend_call env rq f w = (Inl (Error (f @ '': '' @ statusText r)), emit (Fetch rq) w)"
      by (simp add: backend_call_def)
    then show ?thesis by (rule that(1))
  next
    case True
    show ?thesis
    proof (cases "resp_json r")
      case (Inl e)
      with Inr True have "backend_call env rq f w = (Inl e, emit (Fetch rq) w)"
        by (simp add: backend_call_def)
      then show ?thesis by (rule that(1))
    next
      case (Inr j)
      with \<open>env_fetch env w rq = Inr r\<close> True
      have "backend_call env rq f w = (Inr j, emit (Fetch rq) w)" "\<not> backend_fails env w rq"
        by (simp_all add: backend_call_def backend_fails_def)
      then show ?thesis by (rule that(2))
    qed
  qed
qed

lemma createComment_cases [case_names failed posted]:
  obtains e where "createComment env ow rp n msg w = (Inl e, emit (CreateComment ow rp n msg) w)"
  | c where "env_create_comment env w ow rp n msg = Inr c"
      "createComment env ow rp n msg w = (Inr c, posted ow rp n msg c w)"
  by (cases "env_create_comment env w ow rp n msg") (auto simp: createComment_def posted_def)

lemma scheduleCleanup_cases [case_names failed queued]:
  obtains e where
      "scheduleCleanup env job d w = (Inl e, emit (QueueAdd (delete_comment_job job d)) w)"
  | "scheduleCleanup env job d w = (Inr (), queued (delete_comment_job job d) w)"
  by (cases "env_queue_add env w (delete_comment_job job d)")
     (auto simp: scheduleCleanup_def queued_def)

lemma writeLog_cases [case_names failed ok]:
  obtains e where "writeLog env log w = (Inl e, logged log w)"
  | j where "writeLog env log w = (Inr j, logged log w)"
  unfolding writeLog_def logged_def
  by (rule backend_call_cases) auto

lemma log_call_cases [case_names failed ok]:
  obtains e where "io_bind (writeLog env log) (\<lambda>_. ok ()) w = (Inl e, logged log w)"
  | "io_bind (writeLog env log) (\<lambda>_. ok ()) w = (Inr (), logged log w)"
proof (cases rule: writeLog_cases[of env log w])
  case (failed e)
  then have "io_bind (writeLog env log) (\<lambda>_. ok ()) w = (Inl e, logged log w)"
    by (simp add: io_bind_def)
  then show ?thesis by (rule that(1))
next
  case (ok j)
  then have "io_bind (writeLog env log) (\<lambda>_. ok ()) w = (Inr (), logged log w)"
    by (simp add: io_bind_def ok_def)
  then show ?thesis by (rule that(2))
qed

lemma logBot_cases [case_names failed ok]:
  fixes act et eid ctx
  defines "log \<equiv> \<lparr>actorType = Bot, actorGithubId = None, actorUsername = None,
        action = act, entityType = et, entityId = eid, log_context = ctx\<rparr>"
  obtains e where "logBot env act et eid ctx w = (Inl e, logged log w)"
  | "logBot env act et eid ctx w = (Inr (), logged log w)"
  unfolding logBot_def log_def by (rule log_call_cases)

lemma logContributor_cases [case_names failed ok]:
  fixes act et eid ctx
  defines "log \<equiv> \<lparr>actorType = Contributor, actorGithubId = None, actorUsername = None,
        action = act, entityType = et, entityId = eid, log_context = ctx\<rparr>"
  obtains e where "logContributor env act et eid ctx w = (Inl e, logged log w)"
  | "logContributor env act et eid ctx w = (Inr (), logged log w)"
  unfolding logContributor_def log_def by (rule log_call_cases)

section \<open>All runs of the command handlers\<close>

text \<open>
  The two \<open>scheduleCleanup\<close> calls that end both \<open>try\<close> blocks, started in world
  \<open>w\<close> for the command comment \<open>trig\<close> and the confirmation \<open>c\<close>.
\<close>

lemma cleanup_pair_runs [case_names no_installation first_failed second_failed finished]:
  fixes env p trig c w
  defines "m \<equiv>
     io_bind (installation_id (ic_installation p)) (\<lambda>inst.
     io_bind (scheduleCleanup env (comment_job p trig inst) 60000) (\<lambda>_.
     io_bind (installation_id (ic_installation p)) (\<lambda>inst'.
     io_bind (scheduleCleanup env (comment_job p c inst') 60000) (\<lambda>_.
     ok Done))))"
  defines "q \<equiv> (\<lambda>x i. delete_comment_job (comment_job p x i) 60000)"
  obtains "ic_installation p = None" "m w = (Inl TypeError, w)"
  | i e where "ic_installation p = Some i" "m w = (Inl e, emit (QueueAdd (q trig i)) w)"
  | i e where "ic_installation p = Some i"
      "m w = (Inl e, emit (QueueAdd (q c i)) (queued (q trig i) w))"
  | i where "ic_installation p = Some i"
      "m w = (Inr Done, queued (q c i) (queued (q trig i) w))"
proof (cases "ic_installation p")
  case None
  then have "m w = (Inl TypeError, w)"
    by (simp add: m_def io_bind_def installation_id_def throw_def)
  with None show ?thesis by (rule that(1))
next
  case (Some i)
  then have inst: "installation_id (ic_installation p) = ok i"
    by (simp add: installation_id_def)
  show ?thesis
  proof (cases rule: scheduleCleanup_cases[of env "comment_job p trig i" 60000 w])
    case (failed e)
    then have "m w = (Inl e, emit (QueueAdd (q trig i)) w)"
      by (simp add: m_def q_def inst io_bind_def ok_def)
    with Some show ?thesis by (rule that(2))
  next
    case queued
    show ?thesis
    proof (cases rule: scheduleCleanup_cases[of env "comment_job p c i" 60000
          "queued (q trig i) w"])
      case (failed e)
      with queued have "m w = (Inl e, emit (QueueAdd (q c i)) (queued (q trig i) w))"
        by (simp add: m_def q_def inst io_bind_def ok_def)
      with Some show ?thesis by (rule that(3))
    next
      case queued': queued
      with queued have "m w = (Inr Done, queued (q c i) (queued (q trig i) w))"
        by (simp add: m_def q_def inst io_bind_def ok_def)
      with Some show ?thesis by (rule that(4))
    qed
  qed
qed

lemma hasMaintainerPermission_eq:
  "hasMaintainerPermission env ow rp username w =
     ((\<exists>x \<in> {''write'', ''maintain'', ''admin''}. env_permission env w ow rp username = Inr x),
      emit (GetCollaboratorPermissionLevel ow rp username) w)"
  by (cases "env_permission env w ow rp username")
     (auto simp: hasMaintainerPermission_def getCollaboratorPermissionLevel_def)

lemma handleMaintainerCommand_runs
  [case_names ignored denied no_command classify_failed post_failed no_installation
     first_failed second_failed finished]:
  fixes env p w
  defines "text \<equiv> comment_body (ic_comment p)"
  defines "ow \<equiv> repo_owner_login (ic_repository p)"
  defines "rp \<equiv> repo_name (ic_repository p)"
  defines "n \<equiv> issue_number (ic_issue p)"
  defines "d \<equiv>
     \<lparr>c_githubRepoId = repo_id (ic_repository p),
      c_githubIssueId = issue_id (ic_issue p),
      c_difficulty = parseDifficultyCommand text,
      c_issueType = parseTypeCommand text,
      c_hidden = (if isHideCommand text then Some True else None),
      c_actor_githubId = user_id (ic_sender p),
      c_actor_username = user_login (ic_sender p)\<rparr>"
  defines "msg \<equiv>
     maintainer_confirmation (parseDifficultyCommand text) (parseTypeCommand text)
       (isHideCommand text)"
  defines "w0 \<equiv> emit (GetCollaboratorPermissionLevel ow rp (user_login (ic_sender p))) w"
  defines "w1 \<equiv> emit (Fetch (classify_request d)) w0"
  defines "q \<equiv> (\<lambda>x i. delete_comment_job (comment_job p x i) 60000)"
  defines "r \<equiv> handleMaintainerCommand env p w"
  obtains "r = (Ignored, w)"
  | "r = (Denied, w0)"
  | "r = (NoCommand, w0)"
  | e where "r = (Caught e, w1)"
  | e where "\<not> backend_fails env w0 (classify_request d)"
      "r = (Caught e, emit (CreateComment ow rp n msg) w1)"
  | c where "\<not> backend_fails env w0 (classify_request d)" "ic_installation p = None"
      "r = (Caught TypeError, posted ow rp n msg c w1)"
  | c i e where "\<not> backend_fails env w0 (classify_request d)" "ic_installation p = Some i"
      "r = (Caught e, emit (QueueAdd (q (comment_id (ic_comment p)) i)) (posted ow rp n msg c w1))"
  | c i e where "\<not> backend_fails env w0 (classify_request d)" "ic_installation p = Some i"
      "r = (Caught e, emit (QueueAdd (q c i))
              (queued (q (comment_id (ic_comment p)) i) (posted ow rp n msg c w1)))"
  | c i where "\<not> backend_fails env w0 (classify_request d)" "ic_installation p = Some i"
      "r = (Done, queued (q c i)
              (queued (q (comment_id (ic_comment p)) i) (posted ow rp n msg c w1)))"
proof (cases "includes_str text ''/reposignal''
    \<and> fst (hasMaintainerPermission env ow rp (user_login (ic_sender p)) w)")
  case False
  then have "r = (Ignored, w) \<or> r = (Denied, w0)"
    by (auto simp: r_def handleMaintainerCommand_def hasMaintainerPermission_eq text_def ow_def
        rp_def w0_def)
  then show ?thesis using that(1,2) by blast
next
  case True
  then have r: "r = run_try (maintainer_try env p) w0"
    by (simp add: r_def handleMaintainerCommand_def hasMaintainerPermission_eq text_def ow_def
        rp_def w0_def)
  show ?thesis
  proof (cases "parseDifficultyCommand text \<noteq> None \<or> parseTypeCommand text \<noteq> None
      \<or> isHideCommand text")
    case False
    then have "r = (NoCommand, w0)"
      by (simp add: r maintainer_try_def run_try_def ok_def text_def)
    then show ?thesis by (rule that(3))
  next
    case True
    let ?post = "\<lambda>confirmation.
           io_bind (installation_id (ic_installation p)) (\<lambda>inst.
           io_bind (scheduleCleanup env (comment_job p (comment_id (ic_comment p)) inst) 60000) (\<lambda>_.
           io_bind (installation_id (ic_installation p)) (\<lambda>inst'.
           io_bind (scheduleCleanup env (comment_job p confirmation inst') 60000) (\<lambda>_.
           ok Done))))"
    from True have m: "maintainer_try env p =
        io_bind (classifyIssue env d) (\<lambda>_. io_bind (createComment env ow rp n msg) ?post)"
      by (simp add: maintainer_try_def Let_def text_def d_def ow_def rp_def n_def msg_def)
    show ?thesis
    proof (cases rule: backend_call_cases[of env "classify_request d" "''Failed to classify issue''" w0])
      case (failed e)
      then have "r = (Caught e, w1)"
        by (simp add: r m classifyIssue_def io_bind_def run_try_def w1_def)
      then show ?thesis by (rule that(4))
    next
      case (ok j)
      then have m1: "maintainer_try env p w0 = io_bind (createComment env ow rp n msg) ?post w1"
        by (simp add: m classifyIssue_def io_bind_def w1_def)
      show ?thesis
      proof (cases rule: createComment_cases[of env ow rp n msg w1])
        case (failed e)
        then have "r = (Caught e, emit (CreateComment ow rp n msg) w1)"
          by (simp add: r m1 io_bind_def run_try_def)
        with ok(2) show ?thesis by (rule that(5))
      next
        case (posted c)
        then have m2: "maintainer_try env p w0 = ?post c (posted ow rp n msg c w1)"
          by (simp add: m1 io_bind_def)
        show ?thesis
        proof (cases rule: cleanup_pair_runs[of p env "comment_id (ic_comment p)" c
              "posted ow rp n msg c w1"])
          case no_installation
          then have "r = (Caught TypeError, posted ow rp n msg c w1)"
            by (simp add: r m2 run_try_def)
          with ok(2) no_installation(1) show ?thesis by (rule that(6))
        next
          case (first_failed i e)
          then have "r = (Caught e, emit (QueueAdd (q (comment_id (ic_comment p)) i))
              (posted ow rp n msg c w1))"
            by (simp add: r m2 run_try_def q_def)
          with ok(2) first_failed(1) show ?thesis by (rule that(7))
        next
          case (second_failed i e)
          then have "r = (Caught e, emit (QueueAdd (q c i))
              (queued (q (comment_id (ic_comment p)) i) (posted ow rp n msg c w1)))"
            by (simp add: r m2 run_try_def q_def)
          with ok(2) second_failed(1) show ?thesis by (rule that(8))
        next
          case (finished i)
          then have "r = (Done, queued (q c i)
              (queued (q (comment_id (ic_comment p)) i) (posted ow rp n msg c w1)))"
            by (simp add: r m2 run_try_def q_def)
          with ok(2) finished(1) show ?thesis by (rule that(9))
        qed
      qed
    qed
  qed
qed

lemma isValidFeedbackContext_eq:
  "isValidFeedbackContext env ow rp n commenterId w =
     (case env_pulls_get env w ow rp n of
        Inl e \<Rightarrow> \<lparr>valid = False, prId = None\<rparr>
      | Inr pr \<Rightarrow>
          if pull_merged pr \<and> map_option user_id (pull_user pr) = Some commenterId
          then \<lparr>valid = True, prId = Some (pull_id pr)\<rparr>
          else \<lparr>valid = False, prId = None\<rparr>,
      emit (PullsGet ow rp n) w)"
  by (cases "env_pulls_get env w ow rp n") (auto simp: isValidFeedbackContext_def pulls_get_def)

lemma handleContributorFeedback_runs
  [case_names ignored denied no_command feedback_failed log_failed post_failed no_installation
     first_failed second_failed finished]:
  fixes env p w
  defines "text \<equiv> comment_body (ic_comment p)"
  defines "ow \<equiv> repo_owner_login (ic_repository p)"
  defines "rp \<equiv> repo_name (ic_repository p)"
  defines "n \<equiv> issue_number (ic_issue p)"
  defines "d \<equiv> (\<lambda>pr.
     \<lparr>f_githubPrId = pull_id pr,
      f_githubRepoId = repo_id (ic_repository p),
      f_difficultyRating = parseDifficultyRating text,
      f_responsivenessRating = parseResponsivenessRating text\<rparr>)"
  defines "log \<equiv>
     \<lparr>actorType = Contributor, actorGithubId = None, actorUsername = None,
      action = ''feedback_received'', entityType = Repo,
      entityId = ''repo#'' @ show_int (repo_id (ic_repository p)),
      log_context = Some [(''difficulty_rating'', nullable (parseDifficultyRating text)),
                    (''responsiveness_rating'', nullable (parseResponsivenessRating text))]\<rparr>"
  defines "msg \<equiv> contributor_confirmation"
  defines "w0 \<equiv> emit (PullsGet ow rp n) w"
  defines "w1 \<equiv> (\<lambda>pr. emit (Fetch (feedback_request (d pr))) w0)"
  defines "w2 \<equiv> (\<lambda>pr. logged log (w1 pr))"
  defines "q \<equiv> (\<lambda>x i. delete_comment_job (comment_job p x i) 60000)"
  defines "allowed \<equiv> (\<lambda>pr. env_pulls_get env w ow rp n = Inr pr \<and> pull_merged pr
     \<and> map_option user_id (pull_user pr) = Some (user_id (ic_sender p)))"
  defines "r \<equiv> handleContributorFeedback env p w"
  obtains "r = (Ignored, w)"
  | "r = (Denied, w0)"
  | pr where "allowed pr" "r = (NoCommand, w0)"
  | pr e where "allowed pr" "r = (Caught e, w1 pr)"
  | pr e where "allowed pr" "\<not> backend_fails env w0 (feedback_request (d pr))"
      "r = (Caught e, w2 pr)"
  | pr e where "allowed pr" "\<not> backend_fails env w0 (feedback_request (d pr))"
      "r = (Caught e, emit (CreateComment ow rp n msg) (w2 pr))"
  | pr c where "allowed pr" "\<not> backend_fails env w0 (feedback_request (d pr))"
      "ic_installation p = None"
      "r = (Caught TypeError, posted ow rp n msg c (w2 pr))"
  | pr c i e where "allowed pr" "\<not> backend_fails env w0 (feedback_request (d pr))"
      "ic_installation p = Some i"
      "r = (Caught e, emit (QueueAdd (q (comment_id (ic_comment p)) i))
              (posted ow rp n msg c (w2 pr)))"
  | pr c i e where "allowed pr" "\<not> backend_fails env w0 (feedback_request (d pr))"
      "ic_installation p = Some i"
      "r = (Caught e, emit (QueueAdd (q c i))
              (queued (q (comment_id (ic_comment p)) i) (posted ow rp n msg c (w2 pr))))"
  | pr c i where "allowed pr" "\<not> backend_fails env w0 (feedback_request (d pr))"
      "ic_installation p = Some i"
      "r = (Done, queued (q c i)
              (queued (q (comment_id (ic_comment p)) i) (posted ow rp n msg c (w2 pr))))"
proof (cases "includes_str text ''/reposignal rate''
    \<and> (\<exists>pr. allowed pr \<and> pull_id pr \<noteq> 0)")
  case False
  then have "r = (Ignored, w) \<or> r = (Denied, w0)"
    by (cases "env_pulls_get env w ow rp n")
       (auto simp: r_def handleContributorFeedback_def isValidFeedbackContext_eq text_def ow_def
          rp_def n_def w0_def allowed_def)
  then show ?thesis using that(1,2) by blast
next
  case True
  then obtain pr where pr: "allowed pr" "pull_id pr \<noteq> 0" by blast
  with True have r: "r = run_try (contributor_try env p (pull_id pr)) w0"
    by (simp add: r_def handleContributorFeedback_def isValidFeedbackContext_eq text_def ow_def
        rp_def n_def w0_def allowed_def)
  show ?thesis
  proof (cases "parseDifficultyRating text = None \<and> parseResponsivenessRating text = None")
    case True
    then have "r = (NoCommand, w0)"
      by (simp add: r contributor_try_def run_try_def ok_def text_def)
    with pr(1) show ?thesis by (rule that(3))
  next
    case False
    let ?post = "\<lambda>confirmation.
           io_bind (installation_id (ic_installation p)) (\<lambda>inst.
           io_bind (scheduleCleanup env (comment_job p (comment_id (ic_comment p)) inst) 60000) (\<lambda>_.
           io_bind (installation_id (ic_installation p)) (\<lambda>inst'.
           io_bind (scheduleCleanup env (comment_job p confirmation inst') 60000) (\<lambda>_.
           ok Done))))"
    from False have m: "contributor_try env p (pull_id pr) =
        io_bind (submitFeedback env (d pr)) (\<lambda>_.
        io_bind (logContributor env (action log) (entityType log) (entityId log) (log_context log))
          (\<lambda>_. io_bind (createComment env ow rp n msg) ?post))"
      by (auto simp add: contributor_try_def Let_def text_def d_def ow_def rp_def n_def msg_def
          log_def)
    have log_eq: "\<lparr>actorType = Contributor, actorGithubId = None, actorUsername = None,
        action = action log, entityType = entityType log, entityId = entityId log,
        log_context = log_context log\<rparr> = log"
      by (simp add: log_def)
    show ?thesis
    proof (cases rule: backend_call_cases[of env "feedback_request (d pr)"
          "''Failed to submit feedback''" w0])
      case (failed e)
      then have "r = (Caught e, w1 pr)"
        by (simp add: r m submitFeedback_def io_bind_def run_try_def w1_def)
      with pr(1) show ?thesis by (rule that(4))
    next
      case (ok j)
      then have m1: "contributor_try env p (pull_id pr) w0 =
          io_bind (logContributor env (action log) (entityType log) (entityId log)
            (log_context log)) (\<lambda>_. io_bind (createComment env ow rp n msg) ?post) (w1 pr)"
        by (simp add: m submitFeedback_def io_bind_def w1_def)
      show ?thesis
      proof (cases rule: logContributor_cases[of env "action log" "entityType log"
            "entityId log" "log_context log" "w1 pr"])
        case (failed e)
        then have "r = (Caught e, w2 pr)"
          by (simp add: r m1 io_bind_def run_try_def w2_def log_eq)
        with pr(1) ok(2) show ?thesis by (rule that(5))
      next
        case ok': ok
        then have m2: "contributor_try env p (pull_id pr) w0 =
            io_bind (createComment env ow rp n msg) ?post (w2 pr)"
          by (simp add: m1 io_bind_def w2_def log_eq)
        show ?thesis
        proof (cases rule: createComment_cases[of env ow rp n msg "w2 pr"])
          case (failed e)
          then have "r = (Caught e, emit (CreateComment ow rp n msg) (w2 pr))"
            by (simp add: r m2 io_bind_def run_try_def)
          with pr(1) ok(2) show ?thesis by (rule that(6))
        next
          case (posted c)
          then have m3: "contributor_try env p (pull_id pr) w0 =
              ?post c (posted ow rp n msg c (w2 pr))"
            by (simp add: m2 io_bind_def)
          show ?thesis
          proof (cases rule: cleanup_pair_runs[of p env "comment_id (ic_comment p)" c
                "posted ow rp n msg c (w2 pr)"])
            case no_installation
            then have "r = (Caught TypeError, posted ow rp n msg c (w2 pr))"
              by (simp add: r m3 run_try_def)
            with pr(1) ok(2) no_installation(1) show ?thesis by (rule that(7))
          next
            case (first_failed i e)
            then have "r = (Caught e, emit (QueueAdd (q (comment_id (ic_comment p)) i))
                (posted ow rp n msg c (w2 pr)))"
              by (simp add: r m3 run_try_def q_def)
            with pr(1) ok(2) first_failed(1) show ?thesis by (rule that(8))
          next
            case (second_failed i e)
            then have "r = (Caught e, emit (QueueAdd (q c i))
                (queued (q (comment_id (ic_comment p)) i) (posted ow rp n msg c (w2 pr))))"
              by (simp add: r m3 run_try_def q_def)
            with pr(1) ok(2) second_failed(1) show ?thesis by (rule that(9))
          next
            case (finished i)
            then have "r = (Done, queued (q c i)
                (queued (q (comment_id (ic_comment p)) i) (posted ow rp n msg c (w2 pr))))"
              by (simp add: r m3 run_try_def q_def)
            with pr(1) ok(2) finished(1) show ?thesis by (rule that(10))
          qed
        qed
      qed
    qed
  qed
qed

section \<open>Selectors\<close>

lemma request_paths [simp]:
  "path (classify_request d) = ''/bot/issues/classify''"
  "path (feedback_request f) = ''/bot/feedback''"
  "path (log_request log) = ''/bot/logs''"
  "path (delete_issue_request a b) = ''/bot/issues''"
  by (simp_all add: classify_request_def feedback_request_def log_request_def
      delete_issue_request_def)

lemma delete_comment_job_sel [simp]:
  "job_data (delete_comment_job job d) = job"
  "delay (job_options (delete_comment_job job d)) = d"
  "attempts (job_options (delete_comment_job job d)) = 3"
  "backoff_delay (backoff (job_options (delete_comment_job job d))) = 5000"
  "job_name (delete_comment_job job d) = ''delete-comment''"
  by (simp_all add: delete_comment_job_def)

lemma comment_job_sel [simp]:
  "commentId (comment_job p c i) = c"
  "installationId (comment_job p c i) = i"
  by (simp_all add: comment_job_def)

section \<open>All runs of the handlers that post a nudge\<close>

lemma issues_opened_runs
  [case_names post_failed log_failed no_installation add_failed finished]:
  fixes env p w
  defines "ow \<equiv> repo_owner_login (io_repository p)"
  defines "rp \<equiv> repo_name (io_repository p)"
  defines "n \<equiv> issue_number (io_issue p)"
  defines "log \<equiv>
     \<lparr>actorType = Bot, actorGithubId = None, actorUsername = None,
      action = ''issue_nudge_posted'', entityType = Issue,
      entityId = ''issue#'' @ show_int (issue_id (io_issue p)),
      log_context = Some [(''issueNumber'', JNum n)]\<rparr>"
  defines "q \<equiv> (\<lambda>c i. delete_comment_job
     \<lparr>owner = ow, repo = rp, commentId = c, issueNumber = Some n, installationId = i\<rparr> 300000)"
  defines "r \<equiv> on_issues_opened env p w"
  obtains e where "r = (Caught e, emit (CreateComment ow rp n issue_nudge) w)"
  | c e where "r = (Caught e, logged log (posted ow rp n issue_nudge c w))"
  | c where "io_installation p = None"
      "r = (Caught TypeError, logged log (posted ow rp n issue_nudge c w))"
  | c i e where "io_installation p = Some i"
      "r = (Caught e, emit (QueueAdd (q c i)) (logged log (posted ow rp n issue_nudge c w)))"
  | c i where "io_installation p = Some i"
      "r = (Done, queued (q c i) (logged log (posted ow rp n issue_nudge c w)))"
proof -
  let ?sched = "\<lambda>nudge.
     io_bind (installation_id (io_installation p)) (\<lambda>inst.
     io_bind (scheduleCleanup env
       \<lparr>owner = ow, repo = rp, commentId = nudge, issueNumber = Some n,
        installationId = inst\<rparr> 300000) (\<lambda>_. ok Done))"
  have r: "r = run_try (io_bind (createComment env ow rp n issue_nudge) (\<lambda>nudge.
      io_bind (logBot env (action log) (entityType log) (entityId log) (log_context log))
        (\<lambda>_. ?sched nudge))) w"
    by (simp add: r_def on_issues_opened_def issues_opened_try_def ow_def rp_def n_def log_def)
  have log_eq: "\<lparr>actorType = Bot, actorGithubId = None, actorUsername = None,
      action = action log, entityType = entityType log, entityId = entityId log,
      log_context = log_context log\<rparr> = log"
    by (simp add: log_def)
  show ?thesis
  proof (cases rule: createComment_cases[of env ow rp n issue_nudge w])
    case (failed e)
    then have "r = (Caught e, emit (CreateComment ow rp n issue_nudge) w)"
      by (simp add: r io_bind_def run_try_def)
    then show ?thesis by (rule that(1))
  next
    case (posted c)
    let ?w1 = "posted ow rp n issue_nudge c w"
    from posted have r1: "r = run_try
        (io_bind (logBot env (action log) (entityType log) (entityId log) (log_context log))
          (\<lambda>_. ?sched c)) ?w1"
      by (simp add: r io_bind_def run_try_def)
    show ?thesis
    proof (cases rule: logBot_cases[of env "action log" "entityType log" "entityId log"
          "log_context log" ?w1])
      case (failed e)
      then have "r = (Caught e, logged log ?w1)"
        by (simp add: r1 io_bind_def run_try_def log_eq)
      then show ?thesis by (rule that(2))
    next
      case ok
      let ?w2 = "logged log ?w1"
      from ok have r2: "r = run_try (?sched c) ?w2"
        by (simp add: r1 io_bind_def run_try_def log_eq)
      show ?thesis
      proof (cases "io_installation p")
        case None
        then have "r = (Caught TypeError, ?w2)"
          by (simp add: r2 io_bind_def run_try_def installation_id_def throw_def)
        with None show ?thesis by (rule that(3))
      next
        case (Some i)
        then have r3: "r = run_try (io_bind (scheduleCleanup env
            \<lparr>owner = ow, repo = rp, commentId = c, issueNumber = Some n,
             installationId = i\<rparr> 300000) (\<lambda>_. ok Done)) ?w2"
          by (simp add: r2 io_bind_ok installation_id_def)
        show ?thesis
        proof (cases rule: scheduleCleanup_cases[of env
              "\<lparr>owner = ow, repo = rp, commentId = c, issueNumber = Some n,
                installationId = i\<rparr>" 300000 ?w2])
          case (failed e)
          then have "r = (Caught e, emit (QueueAdd (q c i)) ?w2)"
            by (simp add: r3 io_bind_def run_try_def q_def)
          with Some show ?thesis by (rule that(4))
        next
          case queued
          then have "r = (Done, queued (q c i) ?w2)"
            by (simp add: r3 io_bind_def run_try_def q_def ok_def)
          with Some show ?thesis by (rule that(5))
        qed
      qed
    qed
  qed
qed

text \<open>
  The loop that deletes the linked issues talks to the backend only: it posts no
  comment and queues no job.
\<close>

lemma deleteIssue_world:
  "deleteIssue env a b w = (r, w') \<Longrightarrow> w' = emit (Fetch (delete_issue_request a b)) w"
  unfolding deleteIssue_def by (rule backend_call_world)

lemma delete_linked_quiet:
  "delete_linked env p ns w = (r, w') \<Longrightarrow>
     comments w' = comments w \<and> jobs w' = jobs w
     \<and> (\<exists>cs. trace w' = trace w @ cs \<and> effects cs = [])"
proof (induction ns arbitrary: w)
  case Nil
  then show ?case by (simp add: effects_def)
next
  case (Cons issueNum rest)
  obtain r1 w1 where d: "deleteIssue env (repo_id (pc_repository p)) issueNum w = (r1, w1)"
    by (cases "deleteIssue env (repo_id (pc_repository p)) issueNum w")
  then have w1: "w1 = emit (Fetch (delete_issue_request (repo_id (pc_repository p)) issueNum)) w"
    by (rule deleteIssue_world)
  show ?case
  proof (cases r1)
    case (Inl e)
    with Cons.prems d w1 show ?thesis by (auto simp: effects_def)
  next
    case (Inr j)
    let ?log = "\<lparr>actorType = Bot, actorGithubId = None, actorUsername = None,
        action = ''issue_deleted'', entityType = Issue,
        entityId = ''issue#'' @ show_int issueNum,
        log_context = Some [(''reason'', JStr ''pr_merged''),
                         (''prNumber'', JNum (pr_number (pc_pull_request p))),
                         (''repoId'', JNum (repo_id (pc_repository p)))]\<rparr>"
    show ?thesis
    proof (cases rule: logBot_cases[of env "''issue_deleted''" Issue
          "''issue#'' @ show_int issueNum"
          "Some [(''reason'', JStr ''pr_merged''),
                 (''prNumber'', JNum (pr_number (pc_pull_request p))),
                 (''repoId'', JNum (repo_id (pc_repository p)))]" w1])
      case (failed e)
      with Cons.prems d Inr w1 show ?thesis by (auto simp: effects_def)
    next
      case ok
      with Cons.prems d Inr have "delete_linked env p rest (logged ?log w1) = (r, w')"
        by simp
      from Cons.IH[OF this] obtain cs where
        "comments w' = comments w1" "jobs w' = jobs w1"
        "trace w' = trace (logged ?log w1) @ cs" "effects cs = []"
        by auto
      with w1 show ?thesis by (auto simp: effects_def)
    qed
  qed
qed

lemma delete_linked_issues_quiet:
  "\<exists>w' cs. delete_linked_issues env p w = (Inr (), w')
     \<and> comments w' = comments w \<and> jobs w' = jobs w
     \<and> trace w' = trace w @ cs \<and> effects cs = []"
proof (cases "pr_head_repo (pc_pull_request p)")
  case False
  then show ?thesis by (simp add: delete_linked_issues_def effects_def)
next
  case True
  show ?thesis
  proof (cases "pr_body (pc_pull_request p)")
    case None
    with True show ?thesis by (simp add: delete_linked_issues_def effects_def)
  next
    case (Some b)
    obtain r w' where "delete_linked env p (linked_issues 0 b) w = (r, w')"
      by (cases "delete_linked env p (linked_issues 0 b) w")
    with delete_linked_quiet[OF this] True Some show ?thesis
      by (simp add: delete_linked_issues_def)
  qed
qed

lemma pull_request_closed_runs
  [case_names ignored post_failed log_failed no_installation add_failed finished]:
  fixes env p w
  defines "ow \<equiv> repo_owner_login (pc_repository p)"
  defines "rp \<equiv> repo_name (pc_repository p)"
  defines "n \<equiv> pr_number (pc_pull_request p)"
  defines "log \<equiv>
     \<lparr>actorType = Bot, actorGithubId = None, actorUsername = None,
      action = ''feedback_prompted'', entityType = Repo,
      entityId = ''repo#'' @ show_int (repo_id (pc_repository p)),
      log_context = Some [(''prNumber'', JNum n)]\<rparr>"
  defines "q \<equiv> (\<lambda>c i. delete_comment_job
     \<lparr>owner = ow, repo = rp, commentId = c, issueNumber = Some n, installationId = i\<rparr> 3600000)"
  defines "r \<equiv> on_pull_request_closed env p w"
  obtains "\<not> pr_merged (pc_pull_request p)" "r = (Ignored, w)"
  | e where "r = (Caught e, emit (CreateComment ow rp n feedback_nudge) w)"
  | c e where "r = (Caught e, logged log (posted ow rp n feedback_nudge c w))"
  | c where "pc_installation p = None"
      "r = (Caught TypeError, logged log (posted ow rp n feedback_nudge c w))"
  | c i e where "pc_installation p = Some i"
      "r = (Caught e, emit (QueueAdd (q c i)) (logged log (posted ow rp n feedback_nudge c w)))"
  | c i w' cs where "pc_installation p = Some i" "r = (Done, w')"
      "comments w' = comments (posted ow rp n feedback_nudge c w)"
      "jobs w' = jobs w @ [q c i]"
      "trace w' = trace (queued (q c i) (logged log (posted ow rp n feedback_nudge c w))) @ cs"
      "effects cs = []"
proof (cases "pr_merged (pc_pull_request p)")
  case False
  then have "r = (Ignored, w)"
    by (simp add: r_def on_pull_request_closed_def)
  with False show ?thesis by (rule that(1))
next
  case True
  let ?sched = "\<lambda>nudge.
     io_bind (installation_id (pc_installation p)) (\<lambda>inst.
     io_bind (scheduleCleanup env
       \<lparr>owner = ow, repo = rp, commentId = nudge, issueNumber = Some n,
        installationId = inst\<rparr> 3600000) (\<lambda>_.
     io_bind (delete_linked_issues env p) (\<lambda>_. ok Done)))"
  from True have r: "r = run_try (io_bind (createComment env ow rp n feedback_nudge) (\<lambda>nudge.
      io_bind (logBot env (action log) (entityType log) (entityId log) (log_context log))
        (\<lambda>_. ?sched nudge))) w"
    by (simp add: r_def on_pull_request_closed_def pull_request_closed_try_def ow_def rp_def
        n_def log_def)
  have log_eq: "\<lparr>actorType = Bot, actorGithubId = None, actorUsername = None,
      action = action log, entityType = entityType log, entityId = entityId log,
      log_context = log_context log\<rparr> = log"
    by (simp add: log_def)
  show ?thesis
  proof (cases rule: createComment_cases[of env ow rp n feedback_nudge w])
    case (failed e)
    then have "r = (Caught e, emit (CreateComment ow rp n feedback_nudge) w)"
      by (simp add: r io_bind_def run_try_def)
    then show ?thesis by (rule that(2))
  next
    case (posted c)
    let ?w1 = "posted ow rp n feedback_nudge c w"
    from posted have r1: "r = run_try
        (io_bind (logBot env (action log) (entityType log) (entityId log) (log_context log))
          (\<lambda>_. ?sched c)) ?w1"
      by (simp add: r io_bind_def run_try_def)
    show ?thesis
    proof (cases rule: logBot_cases[of env "action log" "entityType log" "entityId log"
          "log_context log" ?w1])
      case (failed e)
      then have "r = (Caught e, logged log ?w1)"
        by (simp add: r1 io_bind_def run_try_def log_eq)
      then show ?thesis by (rule that(3))
    next
      case ok
      let ?w2 = "logged log ?w1"
      from ok have r2: "r = run_try (?sched c) ?w2"
        by (simp add: r1 io_bind_def run_try_def log_eq)
      show ?thesis
      proof (cases "pc_installation p")
        case None
        then have "r = (Caught TypeError, ?w2)"
          by (simp add: r2 io_bind_def run_try_def installation_id_def throw_def)
        with None show ?thesis by (rule that(4))
      next
        case (Some i)
        then have r3: "r = run_try (io_bind (scheduleCleanup env
            \<lparr>owner = ow, repo = rp, commentId = c, issueNumber = Some n,
             installationId = i\<rparr> 3600000) (\<lambda>_.
            io_bind (delete_linked_issues env p) (\<lambda>_. ok Done))) ?w2"
          by (simp add: r2 io_bind_ok installation_id_def)
        show ?thesis
        proof (cases rule: scheduleCleanup_cases[of env
              "\<lparr>owner = ow, repo = rp, commentId = c, issueNumber = Some n,
                installationId = i\<rparr>" 3600000 ?w2])
          case (failed e)
          then have "r = (Caught e, emit (QueueAdd (q c i)) ?w2)"
            by (simp add: r3 io_bind_def run_try_def q_def)
          with Some show ?thesis by (rule that(5))
        next
          case queued
          let ?w3 = "queued (q c i) ?w2"
          from delete_linked_issues_quiet[of env p ?w3] obtain w' cs where
            t: "delete_linked_issues env p ?w3 = (Inr (), w')"
            "comments w' = comments ?w3" "jobs w' = jobs ?w3"
            "trace w' = trace ?w3 @ cs" "effects cs = []"
            by blast
          from queued t(1) have fin: "r = (Done, w')"
            by (simp add: r3 io_bind_def run_try_def q_def ok_def)
          from t(2) have cm: "comments w' = comments ?w1" by simp
          from t(3) have jb: "jobs w' = jobs w @ [q c i]" by simp
          from Some fin cm jb t(4,5) show ?thesis by (rule that(6))
        qed
      qed
    qed
  qed
qed

section \<open>Runs in which a service answers well\<close>

lemma backend_call_succeeds:
  assumes "\<not> backend_fails env w rq"
  shows "\<exists>j. backend_call env rq failure w = (Inr j, emit (Fetch rq) w)"
  using assms
  by (auto simp: backend_fails_def backend_call_def split: sum.splits if_splits)

lemma createComment_accepted:
  assumes "env_create_comment env w ow rp n msg = Inr c"
  shows "createComment env ow rp n msg w = (Inr c, posted ow rp n msg c w)"
  using assms by (simp add: createComment_def posted_def)

lemma scheduleCleanup_accepted:
  assumes "env_queue_add env w (delete_comment_job job delayMs) = None"
  shows "scheduleCleanup env job delayMs w = (Inr (), queued (delete_comment_job job delayMs) w)"
  using assms by (simp add: scheduleCleanup_def queued_def)

lemma writeLog_succeeds:
  assumes "\<not> backend_fails env (emit (WriteLog log) w) (log_request log)"
  shows "\<exists>j. writeLog env log w = (Inr j, logged log w)"
  using backend_call_succeeds[OF assms] by (simp add: writeLog_def logged_def)

lemma logContributor_succeeds:
  assumes "\<not> backend_fails env
      (emit (WriteLog \<lparr>actorType = Contributor, actorGithubId = None, actorUsername = None,
         action = act, entityType = et, entityId = eid, log_context = ctx\<rparr>) w)
      (log_request \<lparr>actorType = Contributor, actorGithubId = None, actorUsername = None,
         action = act, entityType = et, entityId = eid, log_context = ctx\<rparr>)"
  shows "logContributor env act et eid ctx w =
     (Inr (), logged \<lparr>actorType = Contributor, actorGithubId = None, actorUsername = None,
         action = act, entityType = et, entityId = eid, log_context = ctx\<rparr> w)"
  using writeLog_succeeds[OF assms]
  by (auto simp: logContributor_def io_bind_def ok_def)

lemma logBot_succeeds:
  assumes "\<not> backend_fails env
      (emit (WriteLog \<lparr>actorType = Bot, actorGithubId = None, actorUsername = None,
         action = act, entityType = et, entityId = eid, log_context = ctx\<rparr>) w)
      (log_request \<lparr>actorType = Bot, actorGithubId = None, actorUsername = None,
         action = act, entityType = et, entityId = eid, log_context = ctx\<rparr>)"
  shows "logBot env act et eid ctx w =
     (Inr (), logged \<lparr>actorType = Bot, actorGithubId = None, actorUsername = None,
         action = act, entityType = et, entityId = eid, log_context = ctx\<rparr> w)"
  using writeLog_succeeds[OF assms]
  by (auto simp: logBot_def io_bind_def ok_def)

lemma cleanup_pair_accepted:
  assumes "inst = Some i"
    and "env_queue_add env w (delete_comment_job (comment_job p trigger i) 60000) = None"
    and "env_queue_add env
           (queued (delete_comment_job (comment_job p trigger i) 60000) w)
           (delete_comment_job (comment_job p confirmation i) 60000) = None"
  shows "io_bind (installation_id inst) (\<lambda>inst1.
         io_bind (scheduleCleanup env (comment_job p trigger inst1) 60000) (\<lambda>_.
         io_bind (installation_id inst) (\<lambda>inst2.
         io_bind (scheduleCleanup env (comment_job p confirmation inst2) 60000) (\<lambda>_.
         ok Done)))) w
       = (Inr Done,
          queued (delete_comment_job (comment_job p confirmation i) 60000)
            (queued (delete_comment_job (comment_job p trigger i) 60000) w))"
  using assms
  by (simp add: io_bind_def installation_id_def ok_def scheduleCleanup_accepted)

section \<open>Evaluation of the examples\<close>

lemmas grammar_defs =
  parseDifficultyCommand_def difficulty_at_def parseTypeCommand_def type_at_def
  isHideCommand_def hide_at_def parseDifficultyRating_def parseResponsivenessRating_def
  rating_at_def spaces1_def digit_1_5_def ascii_lower_def ascii_space_def issueType_name_def

lemmas handler_defs =
  handleMaintainerCommand_def hasMaintainerPermission_def getCollaboratorPermissionLevel_def
  maintainer_try_def handleContributorFeedback_def isValidFeedbackContext_def pulls_get_def
  contributor_try_def run_try_def io_bind_def ok_def throw_def installation_id_def
  classifyIssue_def submitFeedback_def writeLog_def logContributor_def logBot_def logSystem_def
  backend_call_def createComment_def scheduleCleanup_def on_issue_comment_created_def Let_def

lemmas example_defs =
  example_env_def example_command_def example_rating_def example_response_def
  example_pull_def

lemmas world_defs = emit_def add_comment_def add_job_def remove_comment_def new_calls_def

lemmas nudge_defs =
  on_issues_opened_def issues_opened_try_def on_pull_request_closed_def
  pull_request_closed_try_def delete_linked_issues_def deleteIssue_def linked_at_def
  closing_keyword_def opt_sd_def opt_esd_def is_digit_def parse_digits_def
  example_issue_def example_merge_def logs_down_def

lemma empty_world_sel [simp]:
  "trace empty_world = []" "comments empty_world = []" "jobs empty_world = []"
  by (simp_all add: empty_world_def)

lemma example_command_has_fetch:
  "\<exists>rq. Fetch rq \<in> set (new_calls empty_world
          (snd (handleMaintainerCommand example_env example_command empty_world)))"
  by (simp add: handler_defs example_defs grammar_defs world_defs empty_world_def)

lemma example_rating_has_feedback:
  "Fetch (feedback_request
       \<lparr>f_githubPrId = 9001, f_githubRepoId = 1, f_difficultyRating = Some 4,
        f_responsivenessRating = None\<rparr>)
     \<in> set (new_calls empty_world
          (snd (handleContributorFeedback example_env example_rating empty_world)))"
  by (simp add: handler_defs example_defs grammar_defs world_defs empty_world_def)

lemma example_rating_has_log:
  "\<exists>e. WriteLog e \<in> set (new_calls empty_world
          (snd (handleContributorFeedback example_env example_rating empty_world)))"
  by (simp add: handler_defs example_defs grammar_defs world_defs empty_world_def)

section \<open>Effects of a successful dispatch\<close>

text \<open>
  C1, for the dispatches in which every awaited call succeeds.  Let a maintainer command
  pass its validation (the permission lookup answers \<open>write\<close>, \<open>maintain\<close> or
  \<open>admin\<close>) and carry at least one change, and let the services answer as follows, each
  in the world in which the handler calls it: the backend accepts the classification,
  the platform accepts the post of the confirmation and gives it the id \<open>c\<close>, the event
  carries the installation \<open>i\<close>, and the queue accepts the two jobs.  Then
  \<open>handleMaintainerCommand\<close> ends its \<open>try\<close> block, has posted exactly one comment, the
  confirmation, and has queued exactly two jobs, the first for the comment that carried
  the command and the second for the confirmation, each with a delay of exactly 60000
  milliseconds; exactly one post and two queue additions were attempted.  The same holds
  of \<open>handleContributorFeedback\<close> for a rating by the author of the merged pull request
  \<open>pr\<close> (whose id is not 0), when the backend accepts the feedback and then the write of
  the log entry.
\<close>

theorem dispatch_effects:
  fixes env :: env and p :: issue_comment_created and w :: world
    and c i :: int and pr :: pull
  defines "msg \<equiv> comment_body (ic_comment p)"
  defines "ow \<equiv> repo_owner_login (ic_repository p)"
  defines "rp \<equiv> repo_name (ic_repository p)"
  defines "n \<equiv> issue_number (ic_issue p)"
  defines "q1 \<equiv> delete_comment_job (comment_job p (comment_id (ic_comment p)) i) 60000"
  defines "q2 \<equiv> delete_comment_job (comment_job p c i) 60000"
  defines "d \<equiv> \<lparr>c_githubRepoId = repo_id (ic_repository p),
                 c_githubIssueId = issue_id (ic_issue p),
                 c_difficulty = parseDifficultyCommand msg,
                 c_issueType = parseTypeCommand msg,
                 c_hidden = (if isHideCommand msg then Some True else None),
                 c_actor_githubId = user_id (ic_sender p),
                 c_actor_username = user_login (ic_sender p)\<rparr>"
  defines "reply \<equiv> maintainer_confirmation (parseDifficultyCommand msg)
                     (parseTypeCommand msg) (isHideCommand msg)"
  defines "m0 \<equiv> emit (GetCollaboratorPermissionLevel ow rp (user_login (ic_sender p))) w"
  defines "m1 \<equiv> emit (Fetch (classify_request d)) m0"
  defines "m2 \<equiv> posted ow rp n reply c m1"
  defines "f \<equiv> \<lparr>f_githubPrId = pull_id pr,
                 f_githubRepoId = repo_id (ic_repository p),
                 f_difficultyRating = parseDifficultyRating msg,
                 f_responsivenessRating = parseResponsivenessRating msg\<rparr>"
  defines "entry \<equiv> \<lparr>actorType = Contributor, actorGithubId = None, actorUsername = None,
                     action = ''feedback_received'', entityType = Repo,
                     entityId = ''repo#'' @ show_int (repo_id (ic_repository p)),
                     log_context = Some
                       [(''difficulty_rating'', nullable (parseDifficultyRating msg)),
                        (''responsiveness_rating'',
                         nullable (parseResponsivenessRating msg))]\<rparr>"
  defines "k0 \<equiv> emit (PullsGet ow rp n) w"
  defines "k1 \<equiv> emit (Fetch (feedback_request f)) k0"
  defines "k2 \<equiv> logged entry k1"
  defines "k3 \<equiv> posted ow rp n contributor_confirmation c k2"
  shows
   "(includes_str msg ''/reposignal''
       \<and> (env_permission env w ow rp (user_login (ic_sender p)) = Inr ''write''
          \<or> env_permission env w ow rp (user_login (ic_sender p)) = Inr ''maintain''
          \<or> env_permission env w ow rp (user_login (ic_sender p)) = Inr ''admin'')
       \<and> (parseDifficultyCommand msg \<noteq> None \<or> parseTypeCommand msg \<noteq> None
          \<or> isHideCommand msg)
       \<and> \<not> backend_fails env m0 (classify_request d)
       \<and> env_create_comment env m1 ow rp n reply = Inr c
       \<and> ic_installation p = Some i
       \<and> env_queue_add env m2 q1 = None
       \<and> env_queue_add env (queued q1 m2) q2 = None
     \<longrightarrow> handleMaintainerCommand env p w = (Done, queued q2 (queued q1 m2))
       \<and> comments (snd (handleMaintainerCommand env p w)) = comments w @
           [\<lparr>posted_id = c, posted_owner = ow, posted_repo = rp,
             posted_issue_number = n, posted_body = reply\<rparr>]
       \<and> jobs (snd (handleMaintainerCommand env p w)) = jobs w @ [q1, q2]
       \<and> commentId (job_data q1) = comment_id (ic_comment p)
       \<and> commentId (job_data q2) = c
       \<and> delay (job_options q1) = 60000 \<and> delay (job_options q2) = 60000
       \<and> effects (new_calls w (snd (handleMaintainerCommand env p w)))
           = [Mutation, Confirmation, Cleanup, Cleanup])
    \<and> (includes_str msg ''/reposignal rate''
       \<and> env_pulls_get env w ow rp n = Inr pr
       \<and> pull_merged pr
       \<and> map_option user_id (pull_user pr) = Some (user_id (ic_sender p))
       \<and> pull_id pr \<noteq> 0
       \<and> (parseDifficultyRating msg \<noteq> None \<or> parseResponsivenessRating msg \<noteq> None)
       \<and> \<not> backend_fails env k0 (feedback_request f)
       \<and> \<not> backend_fails env (emit (WriteLog entry) k1) (log_request entry)
       \<and> env_create_comment env k2 ow rp n contributor_confirmation = Inr c
       \<and> ic_installation p = Some i
       \<and> env_queue_add env k3 q1 = None
       \<and> env_queue_add env (queued q1 k3) q2 = None
     \<longrightarrow> handleContributorFeedback env p w = (Done, queued q2 (queued q1 k3))
       \<and> comments (snd (handleContributorFeedback env p w)) = comments w @
           [\<lparr>posted_id = c, posted_owner = ow, posted_repo = rp,
             posted_issue_number = n, posted_body = contributor_confirmation\<rparr>]
       \<and> jobs (snd (handleContributorFeedback env p w)) = jobs w @ [q1, q2]
       \<and> commentId (job_data q1) = comment_id (ic_comment p)
       \<and> commentId (job_data q2) = c
       \<and> delay (job_options q1) = 60000 \<and> delay (job_options q2) = 60000
       \<and> effects (new_calls w (snd (handleContributorFeedback env p w)))
           = [Mutation, Confirmation, Cleanup, Cleanup])"
    (is "(?allowed \<longrightarrow> ?maintainer) \<and> (?rated \<longrightarrow> ?contributor)")
proof (rule conjI; rule impI)
  assume a: ?allowed
  from a have perm: "hasMaintainerPermission env ow rp (user_login (ic_sender p)) w = (True, m0)"
    by (auto simp: hasMaintainerPermission_def getCollaboratorPermissionLevel_def m0_def)
  from a obtain j where cls: "classifyIssue env d m0 = (Inr j, m1)"
    using backend_call_succeeds[of env m0 "classify_request d"]
    by (auto simp: classifyIssue_def m1_def)
  from a have post: "createComment env ow rp n reply m1 = (Inr c, m2)"
    by (simp add: createComment_accepted m2_def)
  have pair: "io_bind (installation_id (ic_installation p)) (\<lambda>inst1.
         io_bind (scheduleCleanup env (comment_job p (comment_id (ic_comment p)) inst1) 60000) (\<lambda>_.
         io_bind (installation_id (ic_installation p)) (\<lambda>inst2.
         io_bind (scheduleCleanup env (comment_job p c inst2) 60000) (\<lambda>_.
         ok Done)))) m2 = (Inr Done, queued q2 (queued q1 m2))"
    unfolding q1_def q2_def
    by (rule cleanup_pair_accepted[where i = i]) (use a in \<open>simp_all add: q1_def q2_def\<close>)
  from a have blk: "maintainer_try env p m0 = (Inr Done, queued q2 (queued q1 m2))"
    using cls post pair
    by (simp add: maintainer_try_def Let_def io_bind_def msg_def[symmetric] d_def[symmetric]
        ow_def[symmetric] rp_def[symmetric] n_def[symmetric] reply_def[symmetric])
  from a perm blk
  have run: "handleMaintainerCommand env p w = (Done, queued q2 (queued q1 m2))"
    by (simp add: handleMaintainerCommand_def run_try_def msg_def[symmetric]
        ow_def[symmetric] rp_def[symmetric])
  show ?maintainer
    unfolding run
    by (simp add: m2_def m1_def m0_def q1_def q2_def effects_def)
next
  assume a: ?rated
  from a have ctx: "isValidFeedbackContext env ow rp n (user_id (ic_sender p)) w
      = (\<lparr>valid = True, prId = Some (pull_id pr)\<rparr>, k0)"
    by (simp add: isValidFeedbackContext_def pulls_get_def k0_def)
  from a obtain j where sub: "submitFeedback env f k0 = (Inr j, k1)"
    using backend_call_succeeds[of env k0 "feedback_request f"]
    by (auto simp: submitFeedback_def k1_def)
  have lg: "logContributor env ''feedback_received'' Repo
        (''repo#'' @ show_int (repo_id (ic_repository p)))
        (Some [(''difficulty_rating'', nullable (parseDifficultyRating msg)),
               (''responsiveness_rating'', nullable (parseResponsivenessRating msg))]) k1
      = (Inr (), k2)"
    unfolding k2_def entry_def
    by (rule logContributor_succeeds) (use a in \<open>simp add: entry_def\<close>)
  from a have post: "createComment env ow rp n contributor_confirmation k2 = (Inr c, k3)"
    by (simp add: createComment_accepted k3_def)
  have pair: "io_bind (installation_id (ic_installation p)) (\<lambda>inst1.
         io_bind (scheduleCleanup env (comment_job p (comment_id (ic_comment p)) inst1) 60000) (\<lambda>_.
         io_bind (installation_id (ic_installation p)) (\<lambda>inst2.
         io_bind (scheduleCleanup env (comment_job p c inst2) 60000) (\<lambda>_.
         ok Done)))) k3 = (Inr Done, queued q2 (queued q1 k3))"
    unfolding q1_def q2_def
    by (rule cleanup_pair_accepted[where i = i]) (use a in \<open>simp_all add: q1_def q2_def\<close>)
  from a have blk: "contributor_try env p (pull_id pr) k0 = (Inr Done, queued q2 (queued q1 k3))"
    using sub lg post pair
    by (auto simp: contributor_try_def Let_def io_bind_def msg_def[symmetric] f_def[symmetric]
        ow_def[symmetric] rp_def[symmetric] n_def[symmetric])
  from a ctx blk
  have run: "handleContributorFeedback env p w = (Done, queued q2 (queued q1 k3))"
    by (simp add: handleContributorFeedback_def run_try_def msg_def[symmetric]
        ow_def[symmetric] rp_def[symmetric] n_def[symmetric])
  show ?contributor
    unfolding run
    by (simp add: k3_def k2_def k1_def k0_def q1_def q2_def effects_def)
qed

text \<open>A classification and a rating for which every service answers.\<close>

theorem dispatch_effects_witness:
  "includes_str (comment_body (ic_comment example_command)) ''/reposignal''
   \<and> parseDifficultyCommand (comment_body (ic_comment example_command)) = Some 3
   \<and> includes_str (comment_body (ic_comment example_rating)) ''/reposignal rate''
   \<and> parseDifficultyRating (comment_body (ic_comment example_rating)) = Some 4
   \<and> ic_installation example_command = Some 42
   \<and> ic_installation example_rating = Some 42
   \<and> (\<forall>w ow rp u. env_permission example_env w ow rp u = Inr ''write'')
   \<and> (\<forall>w ow rp n. env_pulls_get example_env w ow rp n = Inr example_pull)
   \<and> pull_merged example_pull
   \<and> map_option user_id (pull_user example_pull) = Some (user_id (ic_sender example_rating))
   \<and> pull_id example_pull = 9001
   \<and> (\<forall>w rq. \<not> backend_fails example_env w rq)
   \<and> (\<forall>w ow rp n msg. env_create_comment example_env w ow rp n msg = Inr 501)
   \<and> (\<forall>w qj. env_queue_add example_env w qj = None)
   \<and> fst (handleMaintainerCommand example_env example_command empty_world) = Done
   \<and> map posted_body
        (comments (snd (handleMaintainerCommand example_env example_command empty_world)))
      = [maintainer_confirmation (Some 3) None False]
   \<and> map (\<lambda>q. (commentId (job_data q), delay (job_options q)))
        (jobs (snd (handleMaintainerCommand example_env example_command empty_world)))
      = [(500, 60000), (501, 60000)]
   \<and> fst (handleContributorFeedback example_env example_rating empty_world) = Done
   \<and> map posted_body
        (comments (snd (handleContributorFeedback example_env example_rating empty_world)))
      = [contributor_confirmation]
   \<and> map (\<lambda>q. (commentId (job_data q), delay (job_options q)))
        (jobs (snd (handleContributorFeedback example_env example_rating empty_world)))
      = [(500, 60000), (501, 60000)]"
proof -
  have g: "includes_str (comment_body (ic_comment example_command)) ''/reposignal''"
    "parseDifficultyCommand (comment_body (ic_comment example_command)) = Some 3"
    "parseTypeCommand (comment_body (ic_comment example_command)) = None"
    "isHideCommand (comment_body (ic_comment example_command)) = False"
    "includes_str (comment_body (ic_comment example_rating)) ''/reposignal rate''"
    "parseDifficultyRating (comment_body (ic_comment example_rating)) = Some 4"
    by (simp_all add: example_defs grammar_defs)
  have s: "ic_installation example_command = Some 42"
    "ic_installation example_rating = Some 42"
    "\<And>w ow rp u. env_permission example_env w ow rp u = Inr ''write''"
    "\<And>w ow rp n. env_pulls_get example_env w ow rp n = Inr example_pull"
    "pull_merged example_pull"
    "map_option user_id (pull_user example_pull) = Some (user_id (ic_sender example_rating))"
    "pull_id example_pull = 9001"
    "\<And>w rq. \<not> backend_fails example_env w rq"
    "\<And>w ow rp n msg. env_create_comment example_env w ow rp n msg = Inr 501"
    "\<And>w qj. env_queue_add example_env w qj = None"
    by (simp_all add: example_defs backend_fails_def)
  from g s dispatch_effects[where env = example_env and p = example_command
      and w = empty_world and c = 501 and i = 42 and pr = example_pull]
  have m: "fst (handleMaintainerCommand example_env example_command empty_world) = Done
     \<and> map posted_body
        (comments (snd (handleMaintainerCommand example_env example_command empty_world)))
      = [maintainer_confirmation (Some 3) None False]
     \<and> map (\<lambda>q. (commentId (job_data q), delay (job_options q)))
        (jobs (snd (handleMaintainerCommand example_env example_command empty_world)))
      = [(500, 60000), (501, 60000)]"
    by (simp add: example_command_def)
  from g s dispatch_effects[where env = example_env and p = example_rating
      and w = empty_world and c = 501 and i = 42 and pr = example_pull]
  have c: "fst (handleContributorFeedback example_env example_rating empty_world) = Done
     \<and> map posted_body
        (comments (snd (handleContributorFeedback example_env example_rating empty_world)))
      = [contributor_confirmation]
     \<and> map (\<lambda>q. (commentId (job_data q), delay (job_options q)))
        (jobs (snd (handleContributorFeedback example_env example_rating empty_world)))
      = [(500, 60000), (501, 60000)]"
    by (simp add: example_rating_def example_command_def)
  from g s m c show ?thesis by simp
qed

text \<open>
  C1 as stated fails.  A successful dispatch is one whose mutating call succeeds
  (``on success: post exactly one confirmation''), and the handler awaits further calls
  after it.  When the platform refuses the post, the classification is stored, no
  confirmation is on the thread and no job was asked for; when the queue rejects the
  first job, the confirmation is on the thread and no job is queued, the second not
  even asked for.
\<close>

theorem dispatch_without_confirmation:
  "(\<forall>w rq. \<not> backend_fails post_refused w rq)
   \<and> (\<forall>w rq. \<not> backend_fails queue_down w rq)
   \<and> fst (handleMaintainerCommand post_refused example_command empty_world)
     = Caught (RequestError 403)
   \<and> effects (trace (snd (handleMaintainerCommand post_refused example_command empty_world)))
     = [Mutation, Confirmation]
   \<and> comments (snd (handleMaintainerCommand post_refused example_command empty_world)) = []
   \<and> jobs (snd (handleMaintainerCommand post_refused example_command empty_world)) = []
   \<and> fst (handleMaintainerCommand queue_down example_command empty_world) = Caught QueueError
   \<and> effects (trace (snd (handleMaintainerCommand queue_down example_command empty_world)))
     = [Mutation, Confirmation, Cleanup]
   \<and> map posted_body
        (comments (snd (handleMaintainerCommand queue_down example_command empty_world)))
     = [maintainer_confirmation (Some 3) None False]
   \<and> jobs (snd (handleMaintainerCommand queue_down example_command empty_world)) = []"
  by (simp add: post_refused_def queue_down_def handler_defs example_defs grammar_defs
      world_defs empty_world_def effects_def classify_request_def backend_fails_def)

text \<open>
  The contributor handler also awaits the write of the log entry between the submission
  and the post.  With the log endpoint out of reach the feedback is stored and nothing
  is posted or queued; the theorem above says nothing of such a run.
\<close>

lemma feedback_stored_without_confirmation:
  "fst (handleContributorFeedback logs_down example_rating empty_world) = Caught NetworkError
   \<and> effects (trace (snd (handleContributorFeedback logs_down example_rating empty_world)))
     = [Mutation]
   \<and> comments (snd (handleContributorFeedback logs_down example_rating empty_world)) = []
   \<and> jobs (snd (handleContributorFeedback logs_down example_rating empty_world)) = []"
  by (simp add: logs_down_def handler_defs example_defs grammar_defs
      world_defs empty_world_def effects_def feedback_request_def log_request_def)

section \<open>Retries of a cleanup job\<close>

lemma process_job_fails:
  assumes "\<forall>w ow rp c. env_delete_comment env w ow rp c \<noteq> None"
  shows "\<exists>e w'. process_job env job w = (Inl e, w')"
proof (cases "env_app_auth env w (installationId job)")
  case (Some e)
  then show ?thesis by (simp add: process_job_def io_bind_def app_auth_def)
next
  case None
  let ?w1 = "emit (AppAuth (installationId job)) w"
  from assms have "env_delete_comment env ?w1 (owner job) (repo job) (commentId job) \<noteq> None"
    by blast
  then obtain e where "env_delete_comment env ?w1 (owner job) (repo job) (commentId job)
      = Some e"
    by blast
  with None show ?thesis
    by (simp add: process_job_def io_bind_def app_auth_def deleteComment_def)
qed

lemma worker_run_last:
  assumes "process_job env (job_data qj) w = (Inl e, w')"
    and "\<not> Suc attemptsMade < attempts (job_options qj)"
  shows "worker_run env qj attemptsMade w = ([Running, Failed], w')"
  using assms by (simp add: worker_run.simps[of env qj attemptsMade w])

lemma worker_run_retry:
  assumes "process_job env (job_data qj) w = (Inl e, w')"
    and "Suc attemptsMade < attempts (job_options qj)"
  shows "worker_run env qj attemptsMade w =
     (Running # Retrying (backoff_ms (job_options qj) (Suc attemptsMade))
        # fst (worker_run env qj (Suc attemptsMade) w'),
      snd (worker_run env qj (Suc attemptsMade) w'))"
  using assms
  by (simp add: worker_run.simps[of env qj attemptsMade w] split: prod.splits)

text \<open>The history of a job queued by \<open>scheduleCleanup\<close> whose deletion always fails.\<close>

lemma always_failing_history:
  assumes "\<forall>w ow rp c. env_delete_comment env w ow rp c \<noteq> None"
  shows "fst (job_history env (delete_comment_job job delayMs) w) =
     [Pending, Running, Retrying 5000, Running, Retrying 10000, Running, Failed]"
proof -
  let ?qj = "delete_comment_job job delayMs"
  from process_job_fails[OF assms] obtain e1 w1 where
    1: "process_job env (job_data ?qj) w = (Inl e1, w1)" by blast
  from process_job_fails[OF assms] obtain e2 w2 where
    2: "process_job env (job_data ?qj) w1 = (Inl e2, w2)" by blast
  from process_job_fails[OF assms] obtain e3 w3 where
    3: "process_job env (job_data ?qj) w2 = (Inl e3, w3)" by blast
  have r3: "worker_run env ?qj 2 w2 = ([Running, Failed], w3)"
    using worker_run_last[OF 3, of 2] by simp
  have r2: "worker_run env ?qj 1 w1 = ([Running, Retrying 10000, Running, Failed], w3)"
    using worker_run_retry[OF 2, of 1] r3 by (simp add: backoff_ms_def numeral_2_eq_2)
  have r1: "worker_run env ?qj 0 w =
      ([Running, Retrying 5000, Running, Retrying 10000, Running, Failed], w3)"
    using worker_run_retry[OF 1, of 0] r2 by (simp add: backoff_ms_def)
  then show ?thesis by (simp add: job_history_def)
qed

text \<open>
  C2, as the retry policy has it.  A cleanup job queued by \<open>scheduleCleanup\<close>, with any
  payload and any delay, whose deletion fails at every attempt, runs exactly three times
  and ends in Failed; between the attempts it waits 5000 and then 10000 milliseconds,
  and there is no fourth attempt (so no third wait).
\<close>

theorem failing_cleanup_job:
  assumes "\<forall>w ow rp c. env_delete_comment env w ow rp c \<noteq> None"
  shows "fst (job_history env (delete_comment_job job delayMs) w) =
           [Pending, Running, Retrying 5000, Running, Retrying 10000, Running, Failed]
       \<and> attempts_made (fst (job_history env (delete_comment_job job delayMs) w)) = 3
       \<and> retry_delays (fst (job_history env (delete_comment_job job delayMs) w))
           = [5000, 10000]
       \<and> last (fst (job_history env (delete_comment_job job delayMs) w)) = Failed"
  using always_failing_history[OF assms, of job delayMs w]
  by (simp add: attempts_made_def)

theorem failing_cleanup_job_witness:
  "(\<forall>w ow rp c. env_delete_comment delete_fails w ow rp c \<noteq> None)
   \<and> fst (job_history delete_fails (delete_comment_job example_job 60000) empty_world) =
       [Pending, Running, Retrying 5000, Running, Retrying 10000, Running, Failed]
   \<and> attempts_made
       (fst (job_history delete_fails (delete_comment_job example_job 60000) empty_world)) = 3"
proof -
  have h: "\<forall>w ow rp c. env_delete_comment delete_fails w ow rp c \<noteq> None"
    by (simp add: delete_fails_def)
  from failing_cleanup_job[OF h, of example_job 60000 empty_world] h
  show ?thesis by blast
qed

text \<open>
  C2 as stated fails: the claim has three backoff delays, of 5, 10 and 20 seconds,
  between three attempts.  There are two, 5000 and 10000 milliseconds; a wait of 20000
  milliseconds would precede a fourth attempt.
\<close>

theorem three_attempts_two_delays:
  "retry_delays
     (fst (job_history delete_fails (delete_comment_job example_job 60000) empty_world))
     = [5000, 10000]
   \<and> retry_delays
     (fst (job_history delete_fails (delete_comment_job example_job 60000) empty_world))
     \<noteq> [5000, 10000, 20000]
   \<and> attempts_made
     (fst (job_history delete_fails (delete_comment_job example_job 60000) empty_world)) = 3"
proof -
  have h: "\<forall>w ow rp c. env_delete_comment delete_fails w ow rp c \<noteq> None"
    by (simp add: delete_fails_def)
  from always_failing_history[OF h, of example_job 60000 empty_world]
  show ?thesis by (simp add: attempts_made_def)
qed

section \<open>The contributor policy\<close>

text \<open>
  C3.  \<open>handleContributorFeedback\<close> sends the feedback request only if the fetch of the
  pull request of the thread succeeded, the pull request is merged, and the numeric id
  of its author is the id of the commenting actor; the request then carries \<open>pr.id\<close>,
  the identifier the platform assigned to the pull request, as \<open>githubPrId\<close>, not the
  number of the thread.  When the fetch fails or one of the two conditions does not
  hold, the handler stops silently: the fetch is the only call it made, no request went
  to the backend, no comment was posted and no job was queued.
\<close>

theorem feedback_gate:
  fixes env p w
  defines "fetched \<equiv> env_pulls_get env w (repo_owner_login (ic_repository p))
     (repo_name (ic_repository p)) (issue_number (ic_issue p))"
  defines "r \<equiv> handleContributorFeedback env p w"
  shows "(\<forall>rq. Fetch rq \<in> set (new_calls w (snd r)) \<and> path rq = ''/bot/feedback'' \<longrightarrow>
            (\<exists>pr members. fetched = Inr pr \<and> pull_merged pr
               \<and> map_option user_id (pull_user pr) = Some (user_id (ic_sender p))
               \<and> req_body rq = Some (JObj ((''githubPrId'', JNum (pull_id pr)) # members))
               \<and> rq = feedback_request
                    \<lparr>f_githubPrId = pull_id pr,
                     f_githubRepoId = repo_id (ic_repository p),
                     f_difficultyRating = parseDifficultyRating (comment_body (ic_comment p)),
                     f_responsivenessRating =
                       parseResponsivenessRating (comment_body (ic_comment p))\<rparr>))
       \<and> (\<not> (\<exists>pr. fetched = Inr pr \<and> pull_merged pr
               \<and> map_option user_id (pull_user pr) = Some (user_id (ic_sender p))) \<longrightarrow>
          (fst r = Ignored \<or> fst r = Denied)
          \<and> (new_calls w (snd r) = []
             \<or> new_calls w (snd r) =
                 [PullsGet (repo_owner_login (ic_repository p)) (repo_name (ic_repository p))
                    (issue_number (ic_issue p))])
          \<and> (\<forall>rq. Fetch rq \<notin> set (new_calls w (snd r)))
          \<and> (\<forall>ow rp n msg. CreateComment ow rp n msg \<notin> set (new_calls w (snd r)))
          \<and> comments (snd r) = comments w \<and> jobs (snd r) = jobs w)"
  unfolding r_def fetched_def
  by (cases rule: handleContributorFeedback_runs[of env p w])
     (auto simp: feedback_request_def log_request_def)

text \<open>
  Two runs of C3: the author of the merged pull request 9001 rates it in thread 12, and
  the same comment in a thread whose pull request cannot be fetched.
\<close>

theorem feedback_gate_witness:
  "Fetch (feedback_request
       \<lparr>f_githubPrId = 9001, f_githubRepoId = 1, f_difficultyRating = Some 4,
        f_responsivenessRating = None\<rparr>)
     \<in> set (new_calls empty_world
          (snd (handleContributorFeedback example_env example_rating empty_world)))
   \<and> (\<exists>pr. env_pulls_get example_env empty_world ''org'' ''repo'' 12 = Inr pr
         \<and> pull_merged pr \<and> map_option user_id (pull_user pr) = Some 7 \<and> pull_id pr = 9001)
   \<and> env_pulls_get (example_env\<lparr>env_pulls_get := \<lambda>w ow rp n. Inl (RequestError 404)\<rparr>)
        empty_world ''org'' ''repo'' 12 = Inl (RequestError 404)
   \<and> (\<forall>rq. Fetch rq \<notin> set (new_calls empty_world
        (snd (handleContributorFeedback
           (example_env\<lparr>env_pulls_get := \<lambda>w ow rp n. Inl (RequestError 404)\<rparr>)
           example_rating empty_world))))
   \<and> comments (snd (handleContributorFeedback
           (example_env\<lparr>env_pulls_get := \<lambda>w ow rp n. Inl (RequestError 404)\<rparr>)
           example_rating empty_world)) = []"
proof -
  let ?rq = "feedback_request
       \<lparr>f_githubPrId = 9001, f_githubRepoId = 1, f_difficultyRating = Some 4,
        f_responsivenessRating = None\<rparr>"
  let ?down = "example_env\<lparr>env_pulls_get := \<lambda>w ow rp n. Inl (RequestError 404)\<rparr>"
  have who: "repo_owner_login (ic_repository example_rating) = ''org''"
    "repo_name (ic_repository example_rating) = ''repo''"
    "issue_number (ic_issue example_rating) = 12"
    "user_id (ic_sender example_rating) = 7"
    by (simp_all add: example_rating_def example_command_def)
  have "path ?rq = ''/bot/feedback''" by simp
  with example_rating_has_feedback
    feedback_gate[where env = example_env and p = example_rating and w = empty_world]
  obtain pr members where pr: "env_pulls_get example_env empty_world ''org'' ''repo'' 12 = Inr pr"
    "pull_merged pr" "map_option user_id (pull_user pr) = Some 7"
    "req_body ?rq = Some (JObj ((''githubPrId'', JNum (pull_id pr)) # members))"
    unfolding who by blast
  from pr(4) have "pull_id pr = 9001" by (simp add: feedback_request_def)
  with pr have 1: "\<exists>pr. env_pulls_get example_env empty_world ''org'' ''repo'' 12 = Inr pr
         \<and> pull_merged pr \<and> map_option user_id (pull_user pr) = Some 7 \<and> pull_id pr = 9001"
    by blast
  have lookup: "env_pulls_get ?down empty_world ''org'' ''repo'' 12 = Inl (RequestError 404)"
    by simp
  with feedback_gate[where env = ?down and p = example_rating and w = empty_world]
  have 2: "(\<forall>rq. Fetch rq \<notin> set (new_calls empty_world
        (snd (handleContributorFeedback ?down example_rating empty_world))))
      \<and> comments (snd (handleContributorFeedback ?down example_rating empty_world)) = []"
    unfolding who by simp
  from example_rating_has_feedback 1 lookup 2 show ?thesis by simp
qed

section \<open>The maintainer policy\<close>

text \<open>
  C4.  \<open>handleMaintainerCommand\<close> sends a request to the backend (the only one it ever
  sends is the classification call) only if the permission lookup for the commenting actor
  answered \<open>write\<close>, \<open>maintain\<close> or \<open>admin\<close>.  When the lookup fails (\<open>Inl e\<close>)
  or answers any other level, the handler stops silently: the lookup is the only call
  it made, no request went to the backend, no comment was posted and no job was queued.
\<close>

theorem maintainer_permission_gate:
  fixes env p w
  defines "level \<equiv> env_permission env w (repo_owner_login (ic_repository p))
     (repo_name (ic_repository p)) (user_login (ic_sender p))"
  defines "r \<equiv> handleMaintainerCommand env p w"
  shows "(\<forall>rq. Fetch rq \<in> set (new_calls w (snd r)) \<longrightarrow>
            path rq = ''/bot/issues/classify''
            \<and> (level = Inr ''write'' \<or> level = Inr ''maintain'' \<or> level = Inr ''admin''))
       \<and> ((\<exists>e. level = Inl e)
            \<or> (\<exists>x. level = Inr x \<and> x \<noteq> ''write'' \<and> x \<noteq> ''maintain'' \<and> x \<noteq> ''admin'') \<longrightarrow>
          (fst r = Ignored \<or> fst r = Denied)
          \<and> (new_calls w (snd r) = []
             \<or> new_calls w (snd r) =
                 [GetCollaboratorPermissionLevel (repo_owner_login (ic_repository p))
                    (repo_name (ic_repository p)) (user_login (ic_sender p))])
          \<and> (\<forall>rq. Fetch rq \<notin> set (new_calls w (snd r)))
          \<and> (\<forall>ow rp n msg. CreateComment ow rp n msg \<notin> set (new_calls w (snd r)))
          \<and> comments (snd r) = comments w \<and> jobs (snd r) = jobs w)"
proof -
  let ?ok = "level = Inr ''write'' \<or> level = Inr ''maintain'' \<or> level = Inr ''admin''"
  let ?lookup = "GetCollaboratorPermissionLevel (repo_owner_login (ic_repository p))
      (repo_name (ic_repository p)) (user_login (ic_sender p))"
  have denied: "r = (Ignored, w) \<or> r = (Denied, emit ?lookup w)" if "\<not> ?ok"
    using that
    by (auto simp: r_def level_def handleMaintainerCommand_def hasMaintainerPermission_eq)
  have quiet: "(fst r = Ignored \<or> fst r = Denied)
      \<and> (new_calls w (snd r) = [] \<or> new_calls w (snd r) = [?lookup])
      \<and> (\<forall>rq. Fetch rq \<notin> set (new_calls w (snd r)))
      \<and> (\<forall>ow rp n msg. CreateComment ow rp n msg \<notin> set (new_calls w (snd r)))
      \<and> comments (snd r) = comments w \<and> jobs (snd r) = jobs w" if "\<not> ?ok"
    using denied[OF that] by auto
  have other: "\<not> ?ok" if "(\<exists>e. level = Inl e)
      \<or> (\<exists>x. level = Inr x \<and> x \<noteq> ''write'' \<and> x \<noteq> ''maintain'' \<and> x \<noteq> ''admin'')"
    using that by auto
  have classify: "path rq = ''/bot/issues/classify''"
    if "Fetch rq \<in> set (new_calls w (snd r))" for rq
    using that unfolding r_def
    by (cases rule: handleMaintainerCommand_runs[of env p w]) auto
  from quiet other classify show ?thesis by blast
qed

text \<open>Two runs of C4: a failed lookup, and a maintainer whose command is classified.\<close>

theorem maintainer_permission_gate_witness:
  "env_permission (example_env\<lparr>env_permission := \<lambda>w ow rp username. Inl (RequestError 404)\<rparr>)
      empty_world ''org'' ''repo'' ''ann'' = Inl (RequestError 404)
   \<and> (\<forall>rq. Fetch rq \<notin> set (new_calls empty_world
        (snd (handleMaintainerCommand
           (example_env\<lparr>env_permission := \<lambda>w ow rp username. Inl (RequestError 404)\<rparr>)
           example_command empty_world))))
   \<and> comments (snd (handleMaintainerCommand
           (example_env\<lparr>env_permission := \<lambda>w ow rp username. Inl (RequestError 404)\<rparr>)
           example_command empty_world)) = []
   \<and> (\<exists>rq. Fetch rq \<in> set (new_calls empty_world
          (snd (handleMaintainerCommand example_env example_command empty_world))))
   \<and> (env_permission example_env empty_world ''org'' ''repo'' ''ann'' = Inr ''write''
      \<or> env_permission example_env empty_world ''org'' ''repo'' ''ann'' = Inr ''maintain''
      \<or> env_permission example_env empty_world ''org'' ''repo'' ''ann'' = Inr ''admin'')"
proof -
  let ?down = "example_env\<lparr>env_permission := \<lambda>w ow rp username. Inl (RequestError 404)\<rparr>"
  have lookup: "env_permission ?down empty_world ''org'' ''repo'' ''ann'' = Inl (RequestError 404)"
    by simp
  have who: "repo_owner_login (ic_repository example_command) = ''org''"
    "repo_name (ic_repository example_command) = ''repo''"
    "user_login (ic_sender example_command) = ''ann''"
    by (simp_all add: example_command_def)
  from lookup maintainer_permission_gate[where env = ?down and p = example_command
      and w = empty_world]
  have 1: "(\<forall>rq. Fetch rq \<notin> set (new_calls empty_world
        (snd (handleMaintainerCommand ?down example_command empty_world))))
      \<and> comments (snd (handleMaintainerCommand ?down example_command empty_world)) = []"
    unfolding who by simp
  from example_command_has_fetch
    maintainer_permission_gate[where env = example_env and p = example_command
      and w = empty_world]
  have 2: "env_permission example_env empty_world ''org'' ''repo'' ''ann'' = Inr ''write''
      \<or> env_permission example_env empty_world ''org'' ''repo'' ''ann'' = Inr ''maintain''
      \<or> env_permission example_env empty_world ''org'' ''repo'' ''ann'' = Inr ''admin''"
    unfolding who by blast
  from lookup 1 2 example_command_has_fetch show ?thesis by simp
qed

section \<open>Order of the side effects\<close>

text \<open>
  C5.  In every run of either command handler the side effects are a prefix of: the
  mutating call to the backend, the post of the confirmation, the scheduling of the two
  cleanups; so a post is always preceded by the mutating call and a cleanup by the post.
  If the mutating call throws (the request fails in the world in which it is issued),
  the handler stops there: no post and no scheduling is attempted, and the comments of
  the thread and the jobs of the queue are what they were.
\<close>

theorem dispatch_order:
  fixes env p w
  defines "wm \<equiv> snd (handleMaintainerCommand env p w)"
  defines "wc \<equiv> snd (handleContributorFeedback env p w)"
  shows "starts_with [Mutation, Confirmation, Cleanup, Cleanup] (effects (new_calls w wm))
       \<and> starts_with [Mutation, Confirmation, Cleanup, Cleanup] (effects (new_calls w wc))
       \<and> (backend_fails env
             (emit (GetCollaboratorPermissionLevel (repo_owner_login (ic_repository p))
                (repo_name (ic_repository p)) (user_login (ic_sender p))) w)
             (classify_request
                \<lparr>c_githubRepoId = repo_id (ic_repository p),
                 c_githubIssueId = issue_id (ic_issue p),
                 c_difficulty = parseDifficultyCommand (comment_body (ic_comment p)),
                 c_issueType = parseTypeCommand (comment_body (ic_comment p)),
                 c_hidden = (if isHideCommand (comment_body (ic_comment p)) then Some True
                             else None),
                 c_actor_githubId = user_id (ic_sender p),
                 c_actor_username = user_login (ic_sender p)\<rparr>) \<longrightarrow>
           comments wm = comments w \<and> jobs wm = jobs w
           \<and> Confirmation \<notin> set (effects (new_calls w wm))
           \<and> Cleanup \<notin> set (effects (new_calls w wm)))
       \<and> (\<forall>pr. env_pulls_get env w (repo_owner_login (ic_repository p))
                 (repo_name (ic_repository p)) (issue_number (ic_issue p)) = Inr pr
              \<and> backend_fails env
                  (emit (PullsGet (repo_owner_login (ic_repository p))
                     (repo_name (ic_repository p)) (issue_number (ic_issue p))) w)
                  (feedback_request
                     \<lparr>f_githubPrId = pull_id pr,
                      f_githubRepoId = repo_id (ic_repository p),
                      f_difficultyRating = parseDifficultyRating (comment_body (ic_comment p)),
                      f_responsivenessRating =
                        parseResponsivenessRating (comment_body (ic_comment p))\<rparr>) \<longrightarrow>
           comments wc = comments w \<and> jobs wc = jobs w
           \<and> Confirmation \<notin> set (effects (new_calls w wc))
           \<and> Cleanup \<notin> set (effects (new_calls w wc)))"
    (is "?order_m \<and> ?order_c \<and> ?abort_m \<and> ?abort_c")
proof (intro conjI)
  show ?order_m
    unfolding wm_def
    by (cases rule: handleMaintainerCommand_runs[of env p w]) (simp_all add: effects_def)
  show ?order_c
    unfolding wc_def
    by (cases rule: handleContributorFeedback_runs[of env p w]) (simp_all add: effects_def)
  show ?abort_m
    unfolding wm_def
    by (cases rule: handleMaintainerCommand_runs[of env p w]) (simp_all add: effects_def)
  show ?abort_c
    unfolding wc_def
    by (cases rule: handleContributorFeedback_runs[of env p w]) (auto simp: effects_def)
qed

text \<open>Two runs of C5 in which the backend cannot be reached.\<close>

theorem dispatch_order_witness:
  "backend_fails (example_env\<lparr>env_fetch := \<lambda>w rq. Inl NetworkError\<rparr>)
     (emit (GetCollaboratorPermissionLevel (repo_owner_login (ic_repository example_command))
        (repo_name (ic_repository example_command)) (user_login (ic_sender example_command)))
        empty_world)
     (classify_request
        \<lparr>c_githubRepoId = repo_id (ic_repository example_command),
         c_githubIssueId = issue_id (ic_issue example_command),
         c_difficulty = parseDifficultyCommand (comment_body (ic_comment example_command)),
         c_issueType = parseTypeCommand (comment_body (ic_comment example_command)),
         c_hidden = (if isHideCommand (comment_body (ic_comment example_command))
                     then Some True else None),
         c_actor_githubId = user_id (ic_sender example_command),
         c_actor_username = user_login (ic_sender example_command)\<rparr>)
   \<and> comments (snd (handleMaintainerCommand
        (example_env\<lparr>env_fetch := \<lambda>w rq. Inl NetworkError\<rparr>) example_command empty_world))
      = []
   \<and> jobs (snd (handleMaintainerCommand
        (example_env\<lparr>env_fetch := \<lambda>w rq. Inl NetworkError\<rparr>) example_command empty_world))
      = []
   \<and> comments (snd (handleContributorFeedback
        (example_env\<lparr>env_fetch := \<lambda>w rq. Inl NetworkError\<rparr>) example_rating empty_world))
      = []
   \<and> jobs (snd (handleContributorFeedback
        (example_env\<lparr>env_fetch := \<lambda>w rq. Inl NetworkError\<rparr>) example_rating empty_world))
      = []
   \<and> starts_with [Mutation, Confirmation, Cleanup, Cleanup]
        (effects (new_calls empty_world
           (snd (handleMaintainerCommand example_env example_command empty_world))))"
proof -
  let ?down = "example_env\<lparr>env_fetch := \<lambda>w rq. Inl NetworkError\<rparr>"
  have fails: "backend_fails ?down w rq" for w rq
    by (simp add: backend_fails_def)
  have pr: "env_pulls_get ?down empty_world (repo_owner_login (ic_repository example_rating))
      (repo_name (ic_repository example_rating)) (issue_number (ic_issue example_rating))
      = Inr example_pull"
    by (simp add: example_env_def)
  note m = dispatch_order[where env = ?down and p = example_command and w = empty_world]
  note c = dispatch_order[where env = ?down and p = example_rating and w = empty_world]
  note o = dispatch_order[where env = example_env and p = example_command and w = empty_world]
  from m fails have 1: "comments (snd (handleMaintainerCommand ?down example_command empty_world))
      = [] \<and> jobs (snd (handleMaintainerCommand ?down example_command empty_world)) = []"
    by simp
  from c fails pr have 2:
    "comments (snd (handleContributorFeedback ?down example_rating empty_world)) = []
     \<and> jobs (snd (handleContributorFeedback ?down example_rating empty_world)) = []"
    by simp
  from o have 3: "starts_with [Mutation, Confirmation, Cleanup, Cleanup]
        (effects (new_calls empty_world
           (snd (handleMaintainerCommand example_env example_command empty_world))))"
    by blast
  from fails 1 2 3 show ?thesis by blast
qed

section \<open>The command grammar on numbers with more than one digit\<close>

lemma digit_1_5_range: "digit_1_5 s = Some n \<Longrightarrow> 1 \<le> n \<and> n \<le> 5"
  by (auto simp: digit_1_5_def split: list.splits if_splits)

lemma search_Some: "search m s = Some r \<Longrightarrow> \<exists>t. m t = Some r"
  by (induction s) (auto split: option.splits)

lemma difficulty_at_range: "difficulty_at s = Some n \<Longrightarrow> 1 \<le> n \<and> n \<le> 5"
  by (auto simp: difficulty_at_def split: option.splits dest: digit_1_5_range)

text \<open>Whatever \<open>parseDifficultyCommand\<close> returns is one of 1 to 5.\<close>

lemma parseDifficultyCommand_range:
  assumes "parseDifficultyCommand body = Some n"
  shows "1 \<le> n \<and> n \<le> 5"
proof -
  from assms have "search difficulty_at body = Some n"
    by (simp add: parseDifficultyCommand_def)
  then obtain t where "difficulty_at t = Some n"
    using search_Some[of difficulty_at body n] by blast
  then show ?thesis by (rule difficulty_at_range)
qed

text \<open>
  C6.  The claim is that a numeric argument outside 1 to 5 is no match, and that
  \<open>difficulty 12\<close> yields no command.  The patterns end with \<open>([1-5])\<close> and
  nothing after it, so they match the first digit of \<open>12\<close>: the code reads
  \<open>/reposignal difficulty 12\<close> as difficulty 1, and \<open>/reposignal rate difficulty 12\<close>
  as the rating 1.
\<close>

theorem difficulty_12_parses_as_1:
  "parseDifficultyCommand ''/reposignal difficulty 12'' = Some 1
   \<and> parseDifficultyRating ''/reposignal rate difficulty 12'' = Some 1"
  by (simp add: grammar_defs)

section \<open>What \<open>writeLog\<close> sends\<close>

text \<open>The members of the body, for every entry: the actor is not among them.\<close>

lemma writeLog_body_members:
  "map fst (writeLog_body log) =
     [''action'', ''entityType'', ''entityId'']
     @ (case log_context log of None \<Rightarrow> [] | Some c \<Rightarrow> [''context''])"
  by (cases "log_context log") (simp_all add: writeLog_body_def opt_member_def)

text \<open>
  C7.  The claim is that every log write carries the actor role and, where the role has
  one, the actor identity.  \<open>writeLog\<close> builds the body from \<open>action\<close>,
  \<open>entityType\<close>, \<open>entityId\<close> and \<open>context\<close> alone: the entry that
  \<open>handleContributorFeedback\<close> logs through \<open>logContributor\<close> goes out without its
  role, and an entry of a maintainer without role, id and name.
\<close>

theorem writeLog_omits_actor:
  "new_calls empty_world
     (snd (logContributor example_env ''feedback_received'' Repo ''repo#1''
        (Some [(''difficulty_rating'', JNum 4), (''responsiveness_rating'', JNull)])
        empty_world))
     = [WriteLog
          \<lparr>actorType = Contributor, actorGithubId = None, actorUsername = None,
           action = ''feedback_received'', entityType = Repo, entityId = ''repo#1'',
           log_context = Some [(''difficulty_rating'', JNum 4),
                               (''responsiveness_rating'', JNull)]\<rparr>,
        Fetch
          \<lparr>http_method = ''POST'', path = ''/bot/logs'',
           req_body = Some (JObj
             [(''action'', JStr ''feedback_received''),
              (''entityType'', JStr ''repo''),
              (''entityId'', JStr ''repo#1''),
              (''context'', JObj [(''difficulty_rating'', JNum 4),
                                 (''responsiveness_rating'', JNull)])])\<rparr>]
   \<and> writeLog_body
        \<lparr>actorType = Maintainer, actorGithubId = Some 123, actorUsername = Some ''Akshay'',
         action = ''issue_classified'', entityType = Issue, entityId = ''issue#123'',
         log_context = Some [(''difficulty'', JNum 5)]\<rparr>
      = [(''action'', JStr ''issue_classified''),
         (''entityType'', JStr ''issue''),
         (''entityId'', JStr ''issue#123''),
         (''context'', JObj [(''difficulty'', JNum 5)])]"
  by (simp add: handler_defs example_defs world_defs empty_world_def
      log_request_def writeLog_body_def opt_member_def entityType_name_def)

text \<open>The entry of the run in which the author of pull request 9001 rates it.\<close>

lemma example_rating_log_request:
  "Fetch \<lparr>http_method = ''POST'', path = ''/bot/logs'',
      req_body = Some (JObj
        [(''action'', JStr ''feedback_received''),
         (''entityType'', JStr ''repo''),
         (''entityId'', JStr ''repo#1''),
         (''context'', JObj [(''difficulty_rating'', JNum 4),
                            (''responsiveness_rating'', JNull)])])\<rparr>
     \<in> set (trace (snd (handleContributorFeedback example_env example_rating empty_world)))"
  by (simp add: handler_defs example_defs grammar_defs world_defs empty_world_def
      log_request_def writeLog_body_def opt_member_def entityType_name_def nullable_def
      feedback_request_def show_int_def digit_char_def)

section \<open>Anonymity of the contributor log\<close>

text \<open>
  C8.  For every action, entity and context, \<open>logContributor\<close> hands exactly one entry to
  \<open>writeLog\<close>, with the contributor role and with both identity fields \<open>null\<close>; and
  every entry that \<open>handleContributorFeedback\<close> writes, in any run, is such an entry.
\<close>

theorem contributor_log_anonymous:
  "(\<exists>e rq. new_calls w (snd (logContributor env act et eid ctx w)) = [WriteLog e, Fetch rq]
       \<and> actorType e = Contributor \<and> actorGithubId e = None \<and> actorUsername e = None
       \<and> action e = act \<and> entityType e = et \<and> entityId e = eid \<and> log_context e = ctx)
   \<and> (\<forall>e. WriteLog e \<in> set (new_calls w (snd (handleContributorFeedback env p w))) \<longrightarrow>
         actorType e = Contributor \<and> actorGithubId e = None \<and> actorUsername e = None)"
  (is "?logger \<and> ?handler")
proof
  show ?logger
    by (cases rule: logContributor_cases[of env act et eid ctx w]) simp_all
  show ?handler
    by (cases rule: handleContributorFeedback_runs[of env p w]) auto
qed

text \<open>The run of C8 in which the author of pull request 9001 rates it.\<close>

theorem contributor_log_anonymous_witness:
  "\<exists>e. WriteLog e \<in> set (new_calls empty_world
          (snd (handleContributorFeedback example_env example_rating empty_world)))
       \<and> actorType e = Contributor \<and> actorGithubId e = None \<and> actorUsername e = None"
  using example_rating_has_log
    contributor_log_anonymous[where env = example_env and p = example_rating
      and w = empty_world]
  by blast

section \<open>Cleanup of the nudges\<close>

text \<open>
  C9 fails on the code.  Both callbacks await \<open>logger.logBot\<close> between the post of the
  nudge and \<open>scheduleCleanup\<close>, inside one \<open>try\<close> block.  With the log endpoint of the
  backend out of reach, the \<open>issues.opened\<close> callback posts its nudge and stops in the
  \<open>catch\<close> block: the nudge is on the thread, no job is queued, and none was asked for.
  The \<open>pull_request.closed\<close> callback does the same on a merge.
\<close>

theorem nudge_without_cleanup:
  "fst (on_issues_opened logs_down example_issue empty_world) = Caught NetworkError
   \<and> map posted_body (comments (snd (on_issues_opened logs_down example_issue empty_world)))
     = [issue_nudge]
   \<and> jobs (snd (on_issues_opened logs_down example_issue empty_world)) = []
   \<and> effects (trace (snd (on_issues_opened logs_down example_issue empty_world)))
     = [Confirmation]
   \<and> fst (on_pull_request_closed logs_down example_merge empty_world) = Caught NetworkError
   \<and> map posted_body
        (comments (snd (on_pull_request_closed logs_down example_merge empty_world)))
     = [feedback_nudge]
   \<and> jobs (snd (on_pull_request_closed logs_down example_merge empty_world)) = []
   \<and> effects (trace (snd (on_pull_request_closed logs_down example_merge empty_world)))
     = [Confirmation]"
  by (simp add: nudge_defs handler_defs example_defs world_defs empty_world_def effects_def
      log_request_def)

text \<open>
  When the log entry is written, the cleanup is scheduled as stated: if the platform
  accepts the post and gives the nudge the id \<open>c\<close>, the backend accepts the log entry,
  the event carries the installation \<open>i\<close> and the queue accepts the job, each in the
  world in which the callback calls it, then the callback ends its \<open>try\<close> block with
  exactly one more comment, the nudge, and exactly one more job, for that comment, with
  a delay of 300000 milliseconds after an opened issue and of 3600000 milliseconds after
  a merge.
\<close>

lemma issue_nudge_cleanup_scheduled:
  fixes env :: env and p :: issues_opened and w :: world and c i :: int
  defines "ow \<equiv> repo_owner_login (io_repository p)"
  defines "rp \<equiv> repo_name (io_repository p)"
  defines "n \<equiv> issue_number (io_issue p)"
  defines "entry \<equiv>
     \<lparr>actorType = Bot, actorGithubId = None, actorUsername = None,
      action = ''issue_nudge_posted'', entityType = Issue,
      entityId = ''issue#'' @ show_int (issue_id (io_issue p)),
      log_context = Some [(''issueNumber'', JNum n)]\<rparr>"
  defines "q \<equiv> delete_comment_job
     \<lparr>owner = ow, repo = rp, commentId = c, issueNumber = Some n, installationId = i\<rparr> 300000"
  defines "w1 \<equiv> posted ow rp n issue_nudge c w"
  assumes "env_create_comment env w ow rp n issue_nudge = Inr c"
    and "\<not> backend_fails env (emit (WriteLog entry) w1) (log_request entry)"
    and "io_installation p = Some i"
    and "env_queue_add env (logged entry w1) q = None"
  shows "on_issues_opened env p w = (Done, queued q (logged entry w1))"
    and "comments (snd (on_issues_opened env p w)) = comments w @
           [\<lparr>posted_id = c, posted_owner = ow, posted_repo = rp,
             posted_issue_number = n, posted_body = issue_nudge\<rparr>]"
    and "jobs (snd (on_issues_opened env p w)) = jobs w @ [q]"
    and "commentId (job_data q) = c" and "delay (job_options q) = 300000"
proof -
  have post: "createComment env ow rp n issue_nudge w = (Inr c, w1)"
    using assms by (simp add: createComment_accepted)
  have lg: "logBot env ''issue_nudge_posted'' Issue
        (''issue#'' @ show_int (issue_id (io_issue p)))
        (Some [(''issueNumber'', JNum n)]) w1 = (Inr (), logged entry w1)"
    unfolding entry_def
    by (rule logBot_succeeds) (use assms in \<open>simp add: entry_def\<close>)
  have add: "scheduleCleanup env
       \<lparr>owner = ow, repo = rp, commentId = c, issueNumber = Some n, installationId = i\<rparr>
       300000 (logged entry w1) = (Inr (), queued q (logged entry w1))"
    unfolding q_def
    by (rule scheduleCleanup_accepted) (use assms in \<open>simp add: q_def\<close>)
  show run: "on_issues_opened env p w = (Done, queued q (logged entry w1))"
    using post lg add \<open>io_installation p = Some i\<close>
    by (simp add: on_issues_opened_def issues_opened_try_def run_try_def io_bind_def
        installation_id_def ok_def ow_def[symmetric] rp_def[symmetric] n_def[symmetric])
  show "comments (snd (on_issues_opened env p w)) = comments w @
           [\<lparr>posted_id = c, posted_owner = ow, posted_repo = rp,
             posted_issue_number = n, posted_body = issue_nudge\<rparr>]"
    and "jobs (snd (on_issues_opened env p w)) = jobs w @ [q]"
    unfolding run by (simp_all add: w1_def)
  show "commentId (job_data q) = c" and "delay (job_options q) = 300000"
    by (simp_all add: q_def)
qed

lemma feedback_nudge_cleanup_scheduled:
  fixes env :: env and p :: pull_request_closed and w :: world and c i :: int
  defines "ow \<equiv> repo_owner_login (pc_repository p)"
  defines "rp \<equiv> repo_name (pc_repository p)"
  defines "n \<equiv> pr_number (pc_pull_request p)"
  defines "entry \<equiv>
     \<lparr>actorType = Bot, actorGithubId = None, actorUsername = None,
      action = ''feedback_prompted'', entityType = Repo,
      entityId = ''repo#'' @ show_int (repo_id (pc_repository p)),
      log_context = Some [(''prNumber'', JNum n)]\<rparr>"
  defines "q \<equiv> delete_comment_job
     \<lparr>owner = ow, repo = rp, commentId = c, issueNumber = Some n, installationId = i\<rparr> 3600000"
  defines "w1 \<equiv> posted ow rp n feedback_nudge c w"
  assumes "pr_merged (pc_pull_request p)"
    and "env_create_comment env w ow rp n feedback_nudge = Inr c"
    and "\<not> backend_fails env (emit (WriteLog entry) w1) (log_request entry)"
    and "pc_installation p = Some i"
    and "env_queue_add env (logged entry w1) q = None"
  shows "fst (on_pull_request_closed env p w) = Done"
    and "comments (snd (on_pull_request_closed env p w)) = comments w @
           [\<lparr>posted_id = c, posted_owner = ow, posted_repo = rp,
             posted_issue_number = n, posted_body = feedback_nudge\<rparr>]"
    and "jobs (snd (on_pull_request_closed env p w)) = jobs w @ [q]"
    and "commentId (job_data q) = c" and "delay (job_options q) = 3600000"
proof -
  have post: "createComment env ow rp n feedback_nudge w = (Inr c, w1)"
    using assms by (simp add: createComment_accepted)
  have lg: "logBot env ''feedback_prompted'' Repo
        (''repo#'' @ show_int (repo_id (pc_repository p)))
        (Some [(''prNumber'', JNum n)]) w1 = (Inr (), logged entry w1)"
    unfolding entry_def
    by (rule logBot_succeeds) (use assms in \<open>simp add: entry_def\<close>)
  have add: "scheduleCleanup env
       \<lparr>owner = ow, repo = rp, commentId = c, issueNumber = Some n, installationId = i\<rparr>
       3600000 (logged entry w1) = (Inr (), queued q (logged entry w1))"
    unfolding q_def
    by (rule scheduleCleanup_accepted) (use assms in \<open>simp add: q_def\<close>)
  obtain w' cs where rest: "delete_linked_issues env p (queued q (logged entry w1)) = (Inr (), w')"
    "comments w' = comments (queued q (logged entry w1))"
    "jobs w' = jobs (queued q (logged entry w1))"
    using delete_linked_issues_quiet[of env p "queued q (logged entry w1)"] by blast
  have run: "on_pull_request_closed env p w = (Done, w')"
    using post lg add rest(1) \<open>pc_installation p = Some i\<close> \<open>pr_merged (pc_pull_request p)\<close>
    by (simp add: on_pull_request_closed_def pull_request_closed_try_def run_try_def
        io_bind_def installation_id_def ok_def ow_def[symmetric] rp_def[symmetric]
        n_def[symmetric])
  show "fst (on_pull_request_closed env p w) = Done"
    and "comments (snd (on_pull_request_closed env p w)) = comments w @
           [\<lparr>posted_id = c, posted_owner = ow, posted_repo = rp,
             posted_issue_number = n, posted_body = feedback_nudge\<rparr>]"
    and "jobs (snd (on_pull_request_closed env p w)) = jobs w @ [q]"
    unfolding run using rest(2,3) by (simp_all add: w1_def)
  show "commentId (job_data q) = c" and "delay (job_options q) = 3600000"
    by (simp_all add: q_def)
qed

text \<open>
  In every run, each cleanup a callback asks for, accepted by the queue or not, is for
  the nudge it posted and has the delay of its kind.
\<close>

lemma nudge_cleanup_requests:
  fixes env p p' w
  defines "r \<equiv> on_issues_opened env p w"
  defines "r' \<equiv> on_pull_request_closed env p' w"
  shows "(\<forall>qj. QueueAdd qj \<in> set (new_calls w (snd r)) \<longrightarrow>
              delay (job_options qj) = 300000
              \<and> (\<exists>pc \<in> set (comments (snd r)). posted_id pc = commentId (job_data qj)
                    \<and> posted_body pc = issue_nudge))
       \<and> (\<forall>qj. QueueAdd qj \<in> set (new_calls w (snd r')) \<longrightarrow>
              delay (job_options qj) = 3600000
              \<and> (\<exists>pc \<in> set (comments (snd r')). posted_id pc = commentId (job_data qj)
                    \<and> posted_body pc = feedback_nudge))"
    (is "?issue_all \<and> ?merge_all")
proof (rule conjI)
  show ?issue_all
    unfolding r_def by (cases rule: issues_opened_runs[of env p w]) auto
  show ?merge_all
  proof (cases rule: pull_request_closed_runs[of p' env w])
    case (finished c i w' cs)
    from \<open>effects cs = []\<close> have "QueueAdd qj \<notin> set cs" for qj
      by (induction cs) (auto simp: effects_def)
    with finished show ?thesis by (auto simp: r'_def)
  qed (auto simp: r'_def)
qed

section \<open>Routing of comments\<close>

lemma starts_with_append: "starts_with s (a @ b) \<Longrightarrow> starts_with s a"
  by (induction s a rule: starts_with.induct) auto

lemma includes_str_append: "includes_str s (a @ b) \<Longrightarrow> includes_str s a"
  by (induction s) (auto dest: starts_with_append)

lemma rate_is_command:
  "includes_str s ''/reposignal rate'' \<Longrightarrow> includes_str s ''/reposignal''"
  using includes_str_append[of s "''/reposignal''" "'' rate''"] by simp

lemma confirmations_differ: "maintainer_confirmation d t h \<noteq> contributor_confirmation"
  by (simp add: maintainer_confirmation_def contributor_confirmation_def check_mark_def)

text \<open>
  C10.  A comment whose body contains \<open>/reposignal rate\<close> is handled by
  \<open>handleContributorFeedback\<close> alone: the run of the callback is the run of that
  handler, and it contains none of the calls of \<open>handleMaintainerCommand\<close>, neither the
  permission lookup, nor the classification request, nor the post of a maintainer
  confirmation, whatever maintainer commands the body holds.
\<close>

theorem rate_comment_routing:
  assumes "includes_str (comment_body (ic_comment p)) ''/reposignal rate''"
  shows "on_issue_comment_created env p w = handleContributorFeedback env p w
       \<and> (\<forall>ow rp username. GetCollaboratorPermissionLevel ow rp username
             \<notin> set (new_calls w (snd (on_issue_comment_created env p w))))
       \<and> (\<forall>rq. Fetch rq \<in> set (new_calls w (snd (on_issue_comment_created env p w))) \<longrightarrow>
             path rq \<noteq> ''/bot/issues/classify'')
       \<and> (\<forall>ow rp n d t h. CreateComment ow rp n (maintainer_confirmation d t h)
             \<notin> set (new_calls w (snd (on_issue_comment_created env p w))))"
proof -
  from assms have eq: "on_issue_comment_created env p w = handleContributorFeedback env p w"
    by (simp add: on_issue_comment_created_def rate_is_command)
  show ?thesis
    unfolding eq
    by (cases rule: handleContributorFeedback_runs[of env p w])
       (auto simp: confirmations_differ)
qed

text \<open>
  A run of C10: one comment that rates the difficulty and also asks to hide the issue,
  from an actor with write permission.
\<close>

theorem rate_comment_routing_witness:
  "includes_str ''/reposignal rate difficulty 4 /reposignal hide'' ''/reposignal rate''
   \<and> isHideCommand ''/reposignal rate difficulty 4 /reposignal hide''
   \<and> on_issue_comment_created example_env
        (example_command\<lparr>ic_comment := \<lparr>comment_id = 500,
           comment_body = ''/reposignal rate difficulty 4 /reposignal hide''\<rparr>\<rparr>) empty_world
      = handleContributorFeedback example_env
        (example_command\<lparr>ic_comment := \<lparr>comment_id = 500,
           comment_body = ''/reposignal rate difficulty 4 /reposignal hide''\<rparr>\<rparr>) empty_world"
proof -
  let ?p = "example_command\<lparr>ic_comment := \<lparr>comment_id = 500,
           comment_body = ''/reposignal rate difficulty 4 /reposignal hide''\<rparr>\<rparr>"
  have 1: "includes_str ''/reposignal rate difficulty 4 /reposignal hide'' ''/reposignal rate''"
    by simp
  then have "includes_str (comment_body (ic_comment ?p)) ''/reposignal rate''"
    by simp
  from rate_comment_routing[OF this, of example_env empty_world]
  have 2: "on_issue_comment_created example_env ?p empty_world
      = handleContributorFeedback example_env ?p empty_world"
    by blast
  have 3: "isHideCommand ''/reposignal rate difficulty 4 /reposignal hide''"
    by (simp add: grammar_defs)
  from 1 2 3 show ?thesis by blast
qed

end
